theory Spec2Isabelle
  imports Complex_Main
begin

section \<open>JavaScript values and library functions used by the client\<close>

text \<open>
  A JavaScript number: a finite value, given as the rational it denotes, \<open>NaN\<close>, or
  one of the two infinities. (Negative zero is not told apart from zero: the code below
  only tests numbers for truthiness, compares them with \<open><\<close> and converts them to
  text, and the two zeros agree on all three.)
\<close>

datatype js_number = Num rat | NaN | PosInfinity | NegInfinity

text \<open>A string is truthy when it is not empty.\<close>

definition truthy :: "string \<Rightarrow> bool" where
  "truthy s = (s \<noteq> [])"

text \<open>
  \<open>Headers\<close>: \<open>get\<close> returns the value stored under a (lower-cased) name, or
  \<open>null\<close>, here \<open>None\<close>.
\<close>

type_synonym headers = "string \<rightharpoonup> string"

text \<open>
  The conversions between text and numbers belong to the language, not to the client.
  They are spelled out here on plain decimal numerals of at most fifteen digits, which
  every conversion reads and writes exactly. On every other argument the result is the
  value of a fixed function of which nothing is known, one for each conversion
  (\<open>Number\<close> and \<open>parseInt\<close> on strings, and the text of a number); a statement that
  mentions such a result holds whatever the language makes of it.
\<close>

datatype reader = StringToNumber | ParseInt

definition language_number :: "reader \<Rightarrow> string \<Rightarrow> js_number" where
  "language_number = (SOME f. True)"

definition language_text :: "js_number \<Rightarrow> string" where
  "language_text = (SOME f. True)"

definition digit_of :: "char \<Rightarrow> nat option" where
  "digit_of c =
     (let n = (of_char c :: nat) in
      if 48 \<le> n \<and> n \<le> 57 then Some (n - 48) else None)"

definition digits_value :: "string \<Rightarrow> nat" where
  "digits_value ds =
     foldl (\<lambda>acc c. acc * 10 + (case digit_of c of None \<Rightarrow> 0 | Some d \<Rightarrow> d)) 0 ds"

definition is_decimal :: "string \<Rightarrow> bool" where
  "is_decimal s = (s \<noteq> [] \<and> length s \<le> 15 \<and> list_all (\<lambda>c. digit_of c \<noteq> None) s)"

text \<open>\<open>parseInt(s)\<close> without a radix, and \<open>Number(s)\<close> on a string.\<close>

definition parseInt :: "string \<Rightarrow> js_number" where
  "parseInt s =
     (if is_decimal s then Num (of_nat (digits_value s)) else language_number ParseInt s)"

definition Number :: "string \<Rightarrow> js_number" where
  "Number s =
     (if is_decimal s then Num (of_nat (digits_value s))
      else language_number StringToNumber s)"

text \<open>\<open>s.split(",")\<close>: the pieces of \<open>s\<close> between commas; always at least one piece.\<close>

fun split_comma :: "string \<Rightarrow> string list" where
  "split_comma [] = [[]]"
| "split_comma (c # cs) =
     (if c = CHR '','' then [] # split_comma cs
      else (case split_comma cs of p # ps \<Rightarrow> (c # p) # ps | [] \<Rightarrow> [[c]]))"

text \<open>Reading index \<open>i\<close> of an array: \<open>undefined\<close> (here \<open>None\<close>) out of range.\<close>

definition at_index :: "'a list \<Rightarrow> nat \<Rightarrow> 'a option" where
  "at_index xs i = (if i < length xs then Some (xs ! i) else None)"

text \<open>Decimal rendering of a natural number and of an integer.\<close>

definition digit_char :: "nat \<Rightarrow> char" where
  "digit_char d = ''0123456789'' ! d"

fun string_of_nat :: "nat \<Rightarrow> string" where
  "string_of_nat n =
     (if n < 10 then [digit_char n] else string_of_nat (n div 10) @ [digit_char (n mod 10)])"

declare string_of_nat.simps [simp del]

definition string_of_int :: "int \<Rightarrow> string" where
  "string_of_int n = (if n < 0 then ''-'' @ string_of_nat (nat (- n)) else string_of_nat (nat n))"

text \<open>The text of a number, as \<open>String(n)\<close> and a template string produce it.\<close>

definition number_to_string :: "js_number \<Rightarrow> string" where
  "number_to_string n =
     (case n of
        Num q \<Rightarrow>
          if of_int \<lfloor>q\<rfloor> = q \<and> \<bar>q\<bar> < 1000000000000000 then string_of_int \<lfloor>q\<rfloor>
          else language_text n
      | _ \<Rightarrow> language_text n)"


section \<open>Data values and thrown values\<close>

text \<open>
  A value as \<open>JSON.parse\<close> or \<open>response.json()\<close> yields it, together with
  \<open>undefined\<close>. An object is the list of its own properties; every key occurs once,
  and no property is a function.
\<close>

datatype jsval =
    JUndefined
  | JNull
  | JBool bool
  | JNum js_number
  | JStr string
  | JArr "jsval list"
  | JObj "(string \<times> jsval) list"

text \<open>Truthiness, as \<open>!v\<close>, \<open>v || w\<close> and \<open>v ? a : b\<close> test it.\<close>

fun js_truthy :: "jsval \<Rightarrow> bool" where
  "js_truthy JUndefined = False"
| "js_truthy JNull = False"
| "js_truthy (JBool b) = b"
| "js_truthy (JNum n) = (n \<noteq> Num 0 \<and> n \<noteq> NaN)"
| "js_truthy (JStr s) = (s \<noteq> [])"
| "js_truthy (JArr xs) = True"
| "js_truthy (JObj kvs) = True"

text \<open>
  \<open>v?.k\<close>: the property of an object, and \<open>undefined\<close> where the value is
  \<open>null\<close> or \<open>undefined\<close> or has no such property. (Only data property names of
  the remote API are read; the built-in properties of strings and arrays, such as
  \<open>length\<close>, are not among them.)
\<close>

fun opt_prop :: "jsval \<Rightarrow> string \<Rightarrow> jsval" where
  "opt_prop (JObj kvs) k = (case map_of kvs k of None \<Rightarrow> JUndefined | Some v \<Rightarrow> v)"
| "opt_prop v k = JUndefined"

datatype js_type = TUndefined | TObject | TBoolean | TNumber | TString

fun typeof :: "jsval \<Rightarrow> js_type" where
  "typeof JUndefined = TUndefined"
| "typeof JNull = TObject"
| "typeof (JBool b) = TBoolean"
| "typeof (JNum n) = TNumber"
| "typeof (JStr s) = TString"
| "typeof (JArr xs) = TObject"
| "typeof (JObj kvs) = TObject"

text \<open>\<open>s.includes(sub)\<close> on strings.\<close>

fun str_includes :: "string \<Rightarrow> string \<Rightarrow> bool" where
  "str_includes [] sub = (sub = [])"
| "str_includes (c # cs) sub = (take (length sub) (c # cs) = sub \<or> str_includes cs sub)"

text \<open>The comparison \<open>a < b\<close> on numbers: false whenever an operand is \<open>NaN\<close>.\<close>

fun js_less :: "js_number \<Rightarrow> js_number \<Rightarrow> bool" where
  "js_less (Num a) (Num b) = (a < b)"
| "js_less (Num a) PosInfinity = True"
| "js_less NegInfinity (Num b) = True"
| "js_less NegInfinity PosInfinity = True"
| "js_less a b = False"

section \<open>Error classes (module errors, printed at the end of src/client.test.ts)\<close>

text \<open>
  Each constructor is one class of the hierarchy under \<open>StravaError\<close>, with the
  message the \<open>Error\<close> constructor has stored and the other arguments of its
  JavaScript constructor; the subclasses fix \<open>code\<close> and \<open>statusCode\<close>. The base
  class takes message, code and optional status code.
\<close>

datatype strava_error =
    StravaError string string "nat option"
  | StravaAuthenticationError string
  | StravaAuthorizationError string
  | StravaNotFoundError string
  | StravaRateLimitError string "js_number option" "string option" "string option"
  | StravaTokenRefreshError string
  | StravaValidationError string
  | StravaNetworkError string
  | StravaApiError string nat

fun message :: "strava_error \<Rightarrow> string" where
  "message (StravaError m c s) = m"
| "message (StravaAuthenticationError m) = m"
| "message (StravaAuthorizationError m) = m"
| "message (StravaNotFoundError m) = m"
| "message (StravaRateLimitError m r l u) = m"
| "message (StravaTokenRefreshError m) = m"
| "message (StravaValidationError m) = m"
| "message (StravaNetworkError m) = m"
| "message (StravaApiError m s) = m"

fun code :: "strava_error \<Rightarrow> string" where
  "code (StravaError m c s) = c"
| "code (StravaAuthenticationError m) = ''STRAVA_AUTH_ERROR''"
| "code (StravaAuthorizationError m) = ''STRAVA_AUTHORIZATION_ERROR''"
| "code (StravaNotFoundError m) = ''STRAVA_NOT_FOUND''"
| "code (StravaRateLimitError m r l u) = ''STRAVA_RATE_LIMIT''"
| "code (StravaTokenRefreshError m) = ''STRAVA_TOKEN_REFRESH_ERROR''"
| "code (StravaValidationError m) = ''STRAVA_VALIDATION_ERROR''"
| "code (StravaNetworkError m) = ''STRAVA_NETWORK_ERROR''"
| "code (StravaApiError m s) = ''STRAVA_API_ERROR''"

fun statusCode :: "strava_error \<Rightarrow> nat option" where
  "statusCode (StravaError m c s) = s"
| "statusCode (StravaAuthenticationError m) = Some 401"
| "statusCode (StravaAuthorizationError m) = Some 403"
| "statusCode (StravaNotFoundError m) = Some 404"
| "statusCode (StravaRateLimitError m r l u) = Some 429"
| "statusCode (StravaTokenRefreshError m) = Some 401"
| "statusCode (StravaValidationError m) = Some 400"
| "statusCode (StravaNetworkError m) = None"
| "statusCode (StravaApiError m s) = Some s"

text \<open>
  What a \<open>throw\<close> or a rejected promise carries: a \<open>StravaError\<close>, or another
  \<open>Error\<close> object, given by its class, \<open>name\<close> and \<open>message\<close>.
\<close>

datatype js_error_class = ErrorC | TypeErrorC | SyntaxErrorC | DOMExceptionC

datatype js_exn = Strava strava_error | JsError js_error_class string string

text \<open>
  Reading property \<open>k\<close> of a value, \<open>v.k\<close>: a \<open>TypeError\<close> on \<open>null\<close> and
  \<open>undefined\<close>, and \<open>v?.k\<close> on every other value.
\<close>

fun get_prop :: "jsval \<Rightarrow> string \<Rightarrow> js_exn + jsval" where
  "get_prop JUndefined k =
     Inl (JsError TypeErrorC ''TypeError''
            (''Cannot read properties of undefined (reading '' @ [CHR 0x27] @ k @
             [CHR 0x27] @ '')''))"
| "get_prop JNull k =
     Inl (JsError TypeErrorC ''TypeError''
            (''Cannot read properties of null (reading '' @ [CHR 0x27] @ k @
             [CHR 0x27] @ '')''))"
| "get_prop v k = Inr (opt_prop v k)"

text \<open>
  The conversion of a value to a string, as \<open>String(v)\<close>, a template string and the
  \<open>Error\<close> constructor apply it. A string is itself. An object is converted by its
  \<open>toString\<close>: the inherited one gives \<open>[object Object]\<close>; an own property of that
  name is not a function, so the conversion falls back on \<open>valueOf\<close>, gets no
  primitive value, and throws a \<open>TypeError\<close>. An array is converted by joining the
  conversions of its elements, which is not spelled out here: its result, a string or a
  thrown error, is the value of a fixed function of which nothing is known.
\<close>

definition language_string :: "jsval \<Rightarrow> js_exn + string" where
  "language_string = (SOME f. True)"

fun ToString :: "jsval \<Rightarrow> js_exn + string" where
  "ToString (JStr s) = Inr s"
| "ToString JUndefined = Inr ''undefined''"
| "ToString JNull = Inr ''null''"
| "ToString (JBool b) = Inr (if b then ''true'' else ''false'')"
| "ToString (JNum n) = Inr (number_to_string n)"
| "ToString (JObj kvs) =
     (if map_of kvs ''toString'' = None then Inr ''[object Object]''
      else Inl (JsError TypeErrorC ''TypeError'' ''Cannot convert object to primitive value''))"
| "ToString (JArr xs) = language_string (JArr xs)"

text \<open>
  The comparison \<open>v < n\<close> of a value with a number. A number is compared as it is.
  Any other value is first converted to a number, which is not spelled out here (the
  conversion of an object may throw): the result is the value of a fixed function of
  which nothing is known.
\<close>

definition language_less :: "jsval \<Rightarrow> js_number \<Rightarrow> js_exn + bool" where
  "language_less = (SOME f. True)"

fun less_than :: "jsval \<Rightarrow> js_number \<Rightarrow> js_exn + bool" where
  "less_than (JNum a) n = Inr (js_less a n)"
| "less_than v n = language_less v n"

section \<open>The error classifier (module errors)\<close>

text \<open>
  A value accepted by \<open>isStravaErrorResponse\<close>: an object with a numeric \<open>status\<close>
  and a \<open>Headers\<close> instance under \<open>headers\<close>. Its \<open>data\<close> is whatever the body
  of the response held (\<open>undefined\<close> where there is none), and \<open>context\<close> is
  optional.
\<close>

record error_response =
  status :: nat
  data :: jsval
  headers :: headers
  resp_context :: "string option"

text \<open>
  The argument of \<open>parseStravaError\<close>, by the test the function applies to it, in the
  order of the source: an instance of \<open>StravaError\<close>; else a value accepted by
  \<open>isStravaErrorResponse\<close>; else an instance of \<open>Error\<close>, given by the value of its
  \<open>message\<close> property (an error made without a message has none of its own, and the
  new error then has the empty message of the prototype); else any other value, here a
  data value.
\<close>

datatype parse_arg =
    AStravaError strava_error
  | AResponse error_response
  | AError jsval
  | AUnknown jsval

text \<open>
  \<open>new C(m, ...)\<close> for a class under \<open>Error\<close> and a message \<open>m\<close> that is not
  \<open>undefined\<close>: the \<open>Error\<close> constructor converts the message to a string, which
  may throw. A template string converts the values it embeds in the same way.
\<close>

definition construct :: "jsval \<Rightarrow> (string \<Rightarrow> strava_error) \<Rightarrow> js_exn + strava_error" where
  "construct m C = (case ToString m of Inl e \<Rightarrow> Inl e | Inr s \<Rightarrow> Inr (C s))"

fun parseStravaError :: "parse_arg \<Rightarrow> js_exn + strava_error" where
  "parseStravaError (AStravaError e) = Inr e"
| "parseStravaError (AResponse r) =
     (let m = opt_prop (data r) ''message'';
          msg = (if js_truthy m then m
                 else JStr (''Request failed with status '' @ string_of_nat (status r)))
      in if status r = 429 then
           construct msg (\<lambda>s. StravaRateLimitError s
             (case headers r ''retry-after'' of
                None \<Rightarrow> None
              | Some h \<Rightarrow> if truthy h then Some (parseInt h) else None)
             (headers r ''x-ratelimit-limit'')
             (headers r ''x-ratelimit-usage''))
         else if status r = 401 then construct msg StravaAuthenticationError
         else if status r = 403 then construct msg StravaAuthorizationError
         else if status r = 404 then construct msg StravaNotFoundError
         else if status r = 400 then construct msg StravaValidationError
         else if status r \<ge> 500 then construct msg (\<lambda>s. StravaApiError s (status r))
         else (case resp_context r of
                 None \<Rightarrow> construct msg (\<lambda>s. StravaError s ''STRAVA_HTTP_ERROR'' (Some (status r)))
               | Some c \<Rightarrow>
                   if truthy c then
                     construct msg
                       (\<lambda>s. StravaError (c @ '': '' @ s) ''STRAVA_HTTP_ERROR''
                               (Some (status r)))
                   else construct msg
                          (\<lambda>s. StravaError s ''STRAVA_HTTP_ERROR'' (Some (status r)))))"
| "parseStravaError (AError m) =
     (case m of
        JUndefined \<Rightarrow> Inr (StravaError [] ''STRAVA_ERROR'' None)
      | _ \<Rightarrow> construct m (\<lambda>s. StravaError s ''STRAVA_ERROR'' None))"
| "parseStravaError (AUnknown v) =
     construct v (\<lambda>s. StravaError s ''STRAVA_UNKNOWN_ERROR'' None)"

section \<open>The client (src/client.ts)\<close>

definition STRAVA_API_BASE_URL :: string where
  "STRAVA_API_BASE_URL = ''https://www.strava.com/api/v3''"

definition STRAVA_OAUTH_BASE_URL :: string where
  "STRAVA_OAUTH_BASE_URL = ''https://www.strava.com/oauth''"

definition DEFAULT_REFRESH_BUFFER :: int where
  "DEFAULT_REFRESH_BUFFER = 600"

definition DEFAULT_TIMEOUT :: int where
  "DEFAULT_TIMEOUT = 30000"

text \<open>
  The stored tokens. The interface \<open>StravaTokens\<close> declares two strings and a number;
  what is stored is what was assigned, which for tokens taken from a response is whatever
  the response held.
\<close>

record tokens =
  accessToken :: jsval
  refreshToken :: jsval
  expiresAt :: jsval

record rate_bucket =
  usage :: "js_number option"
  limit :: "js_number option"

record rate_limit_info =
  shortTerm :: rate_bucket
  longTerm :: rate_bucket

text \<open>
  \<open>StravaClientConfig\<close> as the caller passes it, and the completed configuration the
  constructor stores. The callback \<open>onTokenRefresh\<close> is given by its outcome on the
  tokens it receives: \<open>None\<close> when it returns (or its promise resolves), \<open>Some e\<close>
  when it throws (or its promise rejects) with \<open>e\<close>.
\<close>

record client_config =
  cfg_clientId :: string
  cfg_clientSecret :: string
  cfg_redirectUri :: "string option"
  cfg_autoRefresh :: "bool option"
  cfg_refreshBuffer :: "int option"
  cfg_timeout :: "int option"
  cfg_onTokenRefresh :: "(tokens \<Rightarrow> js_exn option) option"

record config =
  clientId :: string
  clientSecret :: string
  redirectUri :: string
  autoRefresh :: bool
  refreshBuffer :: int
  timeout :: int
  onTokenRefresh :: "tokens \<Rightarrow> js_exn option"

text \<open>
  The fields of a \<open>StravaClient\<close>. The type \<open>'p\<close> is what stands for a promise in
  \<open>refreshPromise\<close>: the outcome it settles to where one caller runs alone, a promise
  identifier where callers interleave.
\<close>

record 'p client =
  config :: config
  tokens :: "tokens option"
  rateLimitInfo :: "rate_limit_info option"
  refreshPromise :: "'p option"

definition StravaClient :: "client_config \<Rightarrow> 'p client" where
  "StravaClient cfg =
     \<lparr>config =
        \<lparr>clientId = cfg_clientId cfg,
         clientSecret = cfg_clientSecret cfg,
         redirectUri = (case cfg_redirectUri cfg of
                          None \<Rightarrow> []
                        | Some u \<Rightarrow> if truthy u then u else []),
         autoRefresh = (case cfg_autoRefresh cfg of None \<Rightarrow> True | Some b \<Rightarrow> b),
         refreshBuffer = (case cfg_refreshBuffer cfg of
                            None \<Rightarrow> DEFAULT_REFRESH_BUFFER
                          | Some b \<Rightarrow> b),
         timeout = (case cfg_timeout cfg of None \<Rightarrow> DEFAULT_TIMEOUT | Some t \<Rightarrow> t),
         onTokenRefresh = (case cfg_onTokenRefresh cfg of
                             None \<Rightarrow> (\<lambda>t. None)
                           | Some f \<Rightarrow> f)\<rparr>,
      tokens = None,
      rateLimitInfo = None,
      refreshPromise = None\<rparr>"

subsection \<open>Rate-limit snapshot and authorization header\<close>

definition updateRateLimitInfo :: "headers \<Rightarrow> 'p client \<Rightarrow> 'p client" where
  "updateRateLimitInfo hs c =
     (case hs ''x-ratelimit-limit'' of
        None \<Rightarrow> c
      | Some limitHeader \<Rightarrow>
          (case hs ''x-ratelimit-usage'' of
             None \<Rightarrow> c
           | Some usageHeader \<Rightarrow>
               if truthy limitHeader \<and> truthy usageHeader then
                 let limits = map Number (split_comma limitHeader);
                     usages = map Number (split_comma usageHeader)
                 in c\<lparr>rateLimitInfo :=
                        Some \<lparr>shortTerm = \<lparr>usage = at_index usages 0,
                                            limit = at_index limits 0\<rparr>,
                              longTerm = \<lparr>usage = at_index usages 1,
                                           limit = at_index limits 1\<rparr>\<rparr>\<rparr>
               else c))"

definition getAuthHeaders :: "'p client \<Rightarrow> js_exn + (string \<times> string) list" where
  "getAuthHeaders c =
     (case tokens c of
        None \<Rightarrow>
          Inl (Strava (StravaValidationError
                 ''No access token available. Please authenticate first.''))
      | Some t \<Rightarrow>
          if \<not> js_truthy (accessToken t) then
            Inl (Strava (StravaValidationError
                   ''No access token available. Please authenticate first.''))
          else (case ToString (accessToken t) of
                  Inl e \<Rightarrow> Inl e
                | Inr s \<Rightarrow> Inr [(''Authorization'', ''Bearer '' @ s)]))"

subsection \<open>The network\<close>

datatype http_method = GET | POST | PUT

text \<open>
  The body of a request: \<open>Stringified v\<close> is the text \<open>JSON.stringify(v)\<close>, kept as
  the value it was made from; \<open>Text s\<close> is a string passed as it is.
\<close>

datatype req_body = Stringified jsval | Text string

record http_request =
  req_url :: string
  req_method :: http_method
  req_headers :: "(string \<times> string) list"
  req_body :: "req_body option"

text \<open>
  A response: \<open>r_json\<close> is what \<open>response.json()\<close> resolves to, \<open>None\<close> when the
  body is not JSON and the call rejects; \<open>r_text\<close> is what \<open>response.text()\<close>
  resolves to.
\<close>

record http_response =
  r_status :: nat
  r_headers :: headers
  r_json :: "jsval option"
  r_text :: string

definition ok :: "http_response \<Rightarrow> bool" where
  "ok r = (200 \<le> r_status r \<and> r_status r \<le> 299)"

datatype fetch_result = Fulfilled http_response | Rejected js_exn

text \<open>
  What the remote side does with one request: the operation settles with \<open>outcome\<close>
  after \<open>latency\<close> milliseconds, or never (\<open>None\<close>). The network answers the
  \<open>n\<close>-th call of a run by a function of \<open>n\<close> and the request.
\<close>

record net_reply =
  latency :: "int option"
  outcome :: fetch_result

type_synonym network = "nat \<Rightarrow> http_request \<Rightarrow> net_reply"

definition abort_error :: js_exn where
  "abort_error = JsError DOMExceptionC ''AbortError'' ''This operation was aborted''"

text \<open>
  \<open>fetch\<close> with the signal of a controller that a timer aborts after \<open>ms\<close>
  milliseconds: the outcome of the operation when it settles before the timer fires, a
  rejection with an \<open>AbortError\<close> otherwise.
\<close>

definition fetch :: "net_reply \<Rightarrow> int \<Rightarrow> fetch_result" where
  "fetch reply ms =
     (case latency reply of
        None \<Rightarrow> Rejected abort_error
      | Some d \<Rightarrow> if d < ms then outcome reply else Rejected abort_error)"

text \<open>The effects a run leaves outside the client: the calls made, the callback's calls.\<close>

record world =
  net_log :: "http_request list"
  cb_log :: "tokens list"

definition response_json :: "http_response \<Rightarrow> js_exn + jsval" where
  "response_json r =
     (case r_json r of
        None \<Rightarrow> Inl (JsError SyntaxErrorC ''SyntaxError'' ''Unexpected token in JSON'')
      | Some v \<Rightarrow> Inr v)"

text \<open>The \<open>catch\<close> block shared by \<open>request\<close> and \<open>fetchWithTimeout\<close>.\<close>

fun catch_block :: "js_exn \<Rightarrow> js_exn" where
  "catch_block (JsError cls name msg) =
     (if name = ''AbortError'' then Strava (StravaNetworkError ''Request timed out'')
      else if cls = TypeErrorC \<and> str_includes msg ''fetch''
      then Strava (StravaNetworkError ''Network error - unable to reach Strava'')
      else JsError cls name msg)"
| "catch_block (Strava e) = Strava e"

subsection \<open>fetchWithTimeout and requestRaw\<close>

record 'a fetch_options =
  f_method :: http_method
  f_headers :: "(string \<times> string) list"
  f_body :: "req_body option"
  f_parseResponse :: "http_response \<Rightarrow> js_exn + 'a"
  f_context :: "string option"
  f_skipRateLimit :: bool
  f_timeout :: "int option"

text \<open>What \<open>fetchWithTimeout\<close> does once \<open>fetch\<close> has settled.\<close>

definition fetchWithTimeout_settle ::
  "'a fetch_options \<Rightarrow> fetch_result \<Rightarrow> 'p client \<Rightarrow> (js_exn + 'a) \<times> 'p client" where
  "fetchWithTimeout_settle options res c =
     (case res of
        Rejected e \<Rightarrow> (Inl (catch_block e), c)
      | Fulfilled response \<Rightarrow>
          let c' = (if \<not> f_skipRateLimit options
                    then updateRateLimitInfo (r_headers response) c else c)
          in if \<not> ok response then
               let errorData = (case r_json response of None \<Rightarrow> JObj [] | Some v \<Rightarrow> v)
               in (case parseStravaError (AResponse
                          \<lparr>status = r_status response,
                           data = errorData,
                           headers = r_headers response,
                           resp_context = f_context options\<rparr>) of
                     Inl e \<Rightarrow> (Inl (catch_block e), c')
                   | Inr err \<Rightarrow> (Inl (catch_block (Strava err)), c'))
             else (case f_parseResponse options response of
                     Inl e \<Rightarrow> (Inl (catch_block e), c')
                   | Inr v \<Rightarrow> (Inr v, c')))"

definition fetchWithTimeout_timeout :: "'a fetch_options \<Rightarrow> 'p client \<Rightarrow> int" where
  "fetchWithTimeout_timeout options c =
     (case f_timeout options of None \<Rightarrow> timeout (config c) | Some t \<Rightarrow> t)"

definition fetchWithTimeout ::
  "network \<Rightarrow> string \<Rightarrow> 'a fetch_options \<Rightarrow> 'p client \<times> world
     \<Rightarrow> (js_exn + 'a) \<times> 'p client \<times> world" where
  "fetchWithTimeout net url options cw =
     (case cw of (c, w) \<Rightarrow>
        let ms = fetchWithTimeout_timeout options c;
            req = \<lparr>req_url = url, req_method = f_method options,
                   req_headers = f_headers options, req_body = f_body options\<rparr>;
            res = fetch (net (length (net_log w)) req) ms
        in (case fetchWithTimeout_settle options res c of
              (out, c') \<Rightarrow> (out, c', w\<lparr>net_log := net_log w @ [req]\<rparr>)))"

record raw_options =
  w_headers :: "(string \<times> string) list"
  w_body :: "req_body option"
  w_parseResponse :: "(http_response \<Rightarrow> js_exn + jsval) option"
  w_context :: "string option"
  w_skipRateLimit :: bool

definition requestRaw_options :: "http_method \<Rightarrow> raw_options \<Rightarrow> jsval fetch_options" where
  "requestRaw_options method options =
     \<lparr>f_method = method,
      f_headers = w_headers options,
      f_body = w_body options,
      f_parseResponse = (case w_parseResponse options of
                           None \<Rightarrow> response_json
                         | Some p \<Rightarrow> p),
      f_context = w_context options,
      f_skipRateLimit = w_skipRateLimit options,
      f_timeout = None\<rparr>"

definition requestRaw ::
  "network \<Rightarrow> http_method \<Rightarrow> string \<Rightarrow> raw_options \<Rightarrow> 'p client \<times> world
     \<Rightarrow> (js_exn + jsval) \<times> 'p client \<times> world" where
  "requestRaw net method url options cw =
     fetchWithTimeout net url (requestRaw_options method options) cw"

subsection \<open>Token management\<close>

text \<open>
  The object the client stores from a token response: its three fields are the three
  properties of the response, as they are. Reading a property of \<open>null\<close> throws.
\<close>

definition tokens_of :: "jsval \<Rightarrow> js_exn + tokens" where
  "tokens_of d =
     (case get_prop d ''access_token'' of
        Inl e \<Rightarrow> Inl e
      | Inr a \<Rightarrow>
          (case get_prop d ''refresh_token'' of
             Inl e \<Rightarrow> Inl e
           | Inr r \<Rightarrow>
               (case get_prop d ''expires_at'' of
                  Inl e \<Rightarrow> Inl e
                | Inr x \<Rightarrow>
                    Inr \<lparr>accessToken = a, refreshToken = r, expiresAt = x\<rparr>)))"

text \<open>The call \<open>exchangeAuthorizationCode\<close> makes, and the function.\<close>

definition exchange_options :: "'p client \<Rightarrow> string \<Rightarrow> raw_options" where
  "exchange_options c authCode =
     \<lparr>w_headers = [(''Content-Type'', ''application/json'')],
      w_body = Some (Stringified (JObj
         [(''client_id'', JStr (clientId (config c))),
          (''client_secret'', JStr (clientSecret (config c))),
          (''code'', JStr authCode),
          (''grant_type'', JStr ''authorization_code'')])),
      w_parseResponse = None,
      w_context = Some ''Exchange Authorization Code'',
      w_skipRateLimit = True\<rparr>"

definition exchange_request :: "'p client \<Rightarrow> string \<Rightarrow> http_request" where
  "exchange_request c authCode =
     \<lparr>req_url = STRAVA_OAUTH_BASE_URL @ ''/token'', req_method = POST,
      req_headers = w_headers (exchange_options c authCode),
      req_body = w_body (exchange_options c authCode)\<rparr>"

definition exchangeAuthorizationCode ::
  "network \<Rightarrow> string \<Rightarrow> 'p client \<times> world \<Rightarrow> (js_exn + jsval) \<times> 'p client \<times> world" where
  "exchangeAuthorizationCode net authCode cw =
     (case requestRaw net POST (STRAVA_OAUTH_BASE_URL @ ''/token'')
             (exchange_options (fst cw) authCode) cw of
        (Inl e, c, w) \<Rightarrow> (Inl e, c, w)
      | (Inr d, c, w) \<Rightarrow>
          (case tokens_of d of
             Inl e \<Rightarrow> (Inl e, c, w)
           | Inr t \<Rightarrow> (Inr d, c\<lparr>tokens := Some t\<rparr>, w)))"

text \<open>
  \<open>refreshAccessToken\<close> in three parts: the choice of the token to refresh, which
  throws when there is none; the call it makes; and what it does with the token response
  once \<open>requestRaw\<close> has returned it.
\<close>

definition tokenToRefresh :: "string option \<Rightarrow> 'p client \<Rightarrow> js_exn + jsval" where
  "tokenToRefresh refreshTokenArg c =
     (let stored = (case tokens c of None \<Rightarrow> JUndefined | Some t \<Rightarrow> refreshToken t);
          chosen = (case refreshTokenArg of
                      None \<Rightarrow> stored
                    | Some r \<Rightarrow> if truthy r then JStr r else stored)
      in if \<not> js_truthy chosen
         then Inl (Strava (StravaTokenRefreshError ''No refresh token available''))
         else Inr chosen)"

definition refresh_options :: "'p client \<Rightarrow> jsval \<Rightarrow> raw_options" where
  "refresh_options c r =
     \<lparr>w_headers = [(''Content-Type'', ''application/json'')],
      w_body = Some (Stringified (JObj
         [(''client_id'', JStr (clientId (config c))),
          (''client_secret'', JStr (clientSecret (config c))),
          (''grant_type'', JStr ''refresh_token''),
          (''refresh_token'', r)])),
      w_parseResponse = None,
      w_context = Some ''Refresh Access Token'',
      w_skipRateLimit = True\<rparr>"

definition refreshAccessToken_store ::
  "jsval \<Rightarrow> 'p client \<times> world \<Rightarrow> (js_exn + jsval) \<times> 'p client \<times> world" where
  "refreshAccessToken_store d cw =
     (case cw of (c, w) \<Rightarrow>
        (case tokens_of d of
           Inl e \<Rightarrow> (Inl e, c, w)
         | Inr t \<Rightarrow>
             let c' = c\<lparr>tokens := Some t\<rparr>;
                 w' = w\<lparr>cb_log := cb_log w @ [t]\<rparr>
             in (case onTokenRefresh (config c') t of
                   Some e \<Rightarrow> (Inl e, c', w')
                 | None \<Rightarrow> (Inr d, c', w'))))"

definition refreshAccessToken ::
  "network \<Rightarrow> string option \<Rightarrow> 'p client \<times> world
     \<Rightarrow> (js_exn + jsval) \<times> 'p client \<times> world" where
  "refreshAccessToken net refreshTokenArg cw =
     (case tokenToRefresh refreshTokenArg (fst cw) of
        Inl e \<Rightarrow> (Inl e, cw)
      | Inr r \<Rightarrow>
          (case requestRaw net POST (STRAVA_OAUTH_BASE_URL @ ''/token'')
                  (refresh_options (fst cw) r) cw of
             (Inl e, c, w) \<Rightarrow> (Inl e, c, w)
           | (Inr d, c, w) \<Rightarrow> refreshAccessToken_store d (c, w)))"

text \<open>
  The test \<open>this.tokens.expiresAt < now + this.config.refreshBuffer\<close>, which throws
  when the conversion of the stored expiry to a number does.
\<close>

definition shouldRefresh :: "int \<Rightarrow> 'p client \<Rightarrow> tokens \<Rightarrow> js_exn + bool" where
  "shouldRefresh now c t =
     less_than (expiresAt t) (Num (of_int (now + refreshBuffer (config c))))"

text \<open>
  \<open>refreshTokenIfNeeded\<close> for a caller that runs alone, at clock reading \<open>now\<close>
  (seconds). A promise found in \<open>refreshPromise\<close> is given by the outcome it settles
  to, and awaiting it yields that outcome. The promise the caller installs itself is
  awaited at once and cleared in the \<open>finally\<close> block, so the field is \<open>None\<close>
  again when the call ends.
\<close>

type_synonym settled = "js_exn + jsval"

definition refreshTokenIfNeeded ::
  "network \<Rightarrow> int \<Rightarrow> settled client \<times> world \<Rightarrow> (js_exn + unit) \<times> settled client \<times> world" where
  "refreshTokenIfNeeded net now cw =
     (case cw of (c, w) \<Rightarrow>
        (case tokens c of
           None \<Rightarrow> (Inr (), c, w)
         | Some t \<Rightarrow>
             (case shouldRefresh now c t of
                Inl e \<Rightarrow> (Inl e, c, w)
              | Inr due \<Rightarrow>
                  if due then
                    (case refreshPromise c of
                       Some p \<Rightarrow> (case p of Inl e \<Rightarrow> (Inl e, c, w) | Inr v \<Rightarrow> (Inr (), c, w))
                     | None \<Rightarrow>
                         (case refreshAccessToken net None (c, w) of
                            (Inl e, c', w') \<Rightarrow> (Inl e, c'\<lparr>refreshPromise := None\<rparr>, w')
                          | (Inr v, c', w') \<Rightarrow> (Inr (), c'\<lparr>refreshPromise := None\<rparr>, w')))
                  else (Inr (), c, w))))"

subsection \<open>request\<close>

text \<open>A query parameter, of the declared type, and \<open>String(value)\<close> on it.\<close>

datatype param_value = PString string | PNumber js_number | PBoolean bool

fun String_of :: "param_value \<Rightarrow> string" where
  "String_of (PString s) = s"
| "String_of (PNumber n) = number_to_string n"
| "String_of (PBoolean b) = (if b then ''true'' else ''false'')"

text \<open>The encoding \<open>URLSearchParams.toString()\<close> applies to keys and values.\<close>

definition hex_char :: "nat \<Rightarrow> char" where
  "hex_char n = ''0123456789ABCDEF'' ! n"

definition encode_char :: "char \<Rightarrow> string" where
  "encode_char c =
     (let n = (of_char c :: nat) in
      if (48 \<le> n \<and> n \<le> 57) \<or> (65 \<le> n \<and> n \<le> 90) \<or> (97 \<le> n \<and> n \<le> 122)
         \<or> c \<in> set ''*-._''
      then [c]
      else if c = CHR '' '' then ''+''
      else [CHR ''%'', hex_char (n div 16), hex_char (n mod 16)])"

definition form_encode :: "string \<Rightarrow> string" where
  "form_encode s = concat (map encode_char s)"

fun join :: "string \<Rightarrow> string list \<Rightarrow> string" where
  "join sep [] = []"
| "join sep [x] = x"
| "join sep (x # y # ys) = x @ sep @ join sep (y # ys)"

definition query_string :: "(string \<times> param_value option) list \<Rightarrow> string" where
  "query_string params =
     join ''&''
       (concat (map (\<lambda>(k, v). case v of
                                 None \<Rightarrow> []
                               | Some x \<Rightarrow> [form_encode k @ ''='' @ form_encode (String_of x)])
                    params))"

text \<open>Assignment of the properties of one header object onto another.\<close>

fun set_prop :: "string \<Rightarrow> string \<Rightarrow> (string \<times> string) list \<Rightarrow> (string \<times> string) list" where
  "set_prop k v [] = [(k, v)]"
| "set_prop k v ((k', v') # kvs) =
     (if k = k' then (k, v) # kvs else (k', v') # set_prop k v kvs)"

definition assign ::
  "(string \<times> string) list \<Rightarrow> (string \<times> string) list \<Rightarrow> (string \<times> string) list" where
  "assign target source = foldl (\<lambda>acc (k, v). set_prop k v acc) target source"

record request_options =
  o_params :: "(string \<times> param_value option) list option"
  o_body :: "jsval option"
  o_headers :: "(string \<times> string) list option"
  o_baseUrl :: "string option"
  o_skipAuth :: bool

definition request_url :: "string \<Rightarrow> request_options \<Rightarrow> string" where
  "request_url path options =
     (let baseUrl = (case o_baseUrl options of None \<Rightarrow> STRAVA_API_BASE_URL | Some b \<Rightarrow> b);
          url = baseUrl @ path
      in case o_params options of
           None \<Rightarrow> url
         | Some params \<Rightarrow>
             let queryString = query_string params
             in if truthy queryString then url @ ''?'' @ queryString else url)"

text \<open>
  \<open>request\<close> at clock reading \<open>now\<close>. Its own \<open>fetch\<close> is aborted by a timer set
  to the constant \<open>DEFAULT_TIMEOUT\<close>.
\<close>

definition request ::
  "network \<Rightarrow> int \<Rightarrow> http_method \<Rightarrow> string \<Rightarrow> request_options
     \<Rightarrow> settled client \<times> world \<Rightarrow> (js_exn + jsval) \<times> settled client \<times> world" where
  "request net now method path options cw =
     (case (if autoRefresh (config (fst cw)) \<and> tokens (fst cw) \<noteq> None \<and> \<not> o_skipAuth options
            then refreshTokenIfNeeded net now cw
            else (Inr (), cw)) of
        (Inl e, c, w) \<Rightarrow> (Inl e, c, w)
      | (Inr u, c, w) \<Rightarrow>
          let url = request_url path options;
              hs = assign [(''Content-Type'', ''application/json'')]
                     (case o_headers options of None \<Rightarrow> [] | Some h \<Rightarrow> h)
          in (case (if \<not> o_skipAuth options
                    then (case getAuthHeaders c of
                            Inl e \<Rightarrow> Inl e
                          | Inr authHeaders \<Rightarrow> Inr (assign hs authHeaders))
                    else Inr hs) of
                Inl e \<Rightarrow> (Inl e, c, w)
              | Inr hs' \<Rightarrow>
                  let req = \<lparr>req_url = url, req_method = method, req_headers = hs',
                             req_body = (case o_body options of
                                           None \<Rightarrow> None
                                         | Some b \<Rightarrow> if js_truthy b
                                                     then Some (Stringified b) else None)\<rparr>;
                      res = fetch (net (length (net_log w)) req) DEFAULT_TIMEOUT;
                      w' = w\<lparr>net_log := net_log w @ [req]\<rparr>
                  in (case res of
                        Rejected e \<Rightarrow> (Inl (catch_block e), c, w')
                      | Fulfilled response \<Rightarrow>
                          let c' = updateRateLimitInfo (r_headers response) c
                          in if \<not> ok response then
                               let errorData = (case r_json response of
                                                  None \<Rightarrow> JObj []
                                                | Some v \<Rightarrow> v)
                               in (case parseStravaError (AResponse
                                          \<lparr>status = r_status response,
                                           data = errorData,
                                           headers = r_headers response,
                                           resp_context = None\<rparr>) of
                                     Inl e \<Rightarrow> (Inl (catch_block e), c', w')
                                   | Inr err \<Rightarrow> (Inl (catch_block (Strava err)), c', w'))
                             else (case response_json response of
                                     Inl e \<Rightarrow> (Inl (catch_block e), c', w')
                                   | Inr v \<Rightarrow> (Inr v, c', w')))))"

definition getAthlete ::
  "network \<Rightarrow> int \<Rightarrow> settled client \<times> world \<Rightarrow> (js_exn + jsval) \<times> settled client \<times> world" where
  "getAthlete net now cw =
     request net now GET ''/athlete''
       \<lparr>o_params = None, o_body = None, o_headers = None, o_baseUrl = None,
        o_skipAuth = False\<rparr> cw"

subsection \<open>Token accessors and object identity\<close>

text \<open>
  \<open>setTokens\<close> and \<open>getTokens\<close> pass objects by reference. The objects live in a
  store, a reference is a key into it, and the field \<open>this.tokens\<close> holds a reference
  or \<open>null\<close>. The \<open>tokens\<close> field of the record \<open>client\<close> above is the object
  this reference points to.
\<close>

type_synonym ref = nat

record object_state =
  objects :: "ref \<rightharpoonup> tokens"
  this_tokens :: "ref option"

definition setTokens :: "ref \<Rightarrow> object_state \<Rightarrow> object_state" where
  "setTokens r s = s\<lparr>this_tokens := Some r\<rparr>"

definition getTokens :: "object_state \<Rightarrow> ref option" where
  "getTokens s = this_tokens s"

text \<open>What the caller does with a reference: read the object, assign one of its fields.\<close>

definition deref :: "object_state \<Rightarrow> ref option \<Rightarrow> tokens option" where
  "deref s r = (case r of None \<Rightarrow> None | Some a \<Rightarrow> objects s a)"

definition assign_accessToken :: "ref \<Rightarrow> jsval \<Rightarrow> object_state \<Rightarrow> object_state" where
  "assign_accessToken r v s =
     (case objects s r of
        None \<Rightarrow> s
      | Some t \<Rightarrow> s\<lparr>objects := (objects s)(r \<mapsto> t\<lparr>accessToken := v\<rparr>)\<rparr>)"

subsection \<open>Pagination\<close>

text \<open>
  The loop of \<open>iterateActivities\<close>, drained by \<open>getAllActivities\<close>. The call
  \<open>fetchPage page perPage\<close> stands for \<open>getActivities\<close> with these two options; it
  returns the page or throws. The loop carries the activities yielded so far, which the
  consumer has pushed onto its array, and the list of the pages requested. A loop that
  never ends has the value \<open>None\<close>.
\<close>

partial_function (option) iterateActivities_loop ::
  "(nat \<Rightarrow> int \<Rightarrow> js_exn + 'a list) \<Rightarrow> int \<Rightarrow> nat \<Rightarrow> 'a list \<Rightarrow> nat list
     \<Rightarrow> ((js_exn + 'a list) \<times> nat list) option" where
  "iterateActivities_loop fetchPage perPage page allActivities requested =
     (case fetchPage page perPage of
        Inl e \<Rightarrow> Some (Inl e, requested @ [page])
      | Inr activities \<Rightarrow>
          if length activities = 0 then Some (Inr allActivities, requested @ [page])
          else if int (length activities) < perPage
          then Some (Inr (allActivities @ activities), requested @ [page])
          else iterateActivities_loop fetchPage perPage (page + 1)
                 (allActivities @ activities) (requested @ [page]))"

definition getAllActivities ::
  "(nat \<Rightarrow> int \<Rightarrow> js_exn + 'a list) \<Rightarrow> int option
     \<Rightarrow> ((js_exn + 'a list) \<times> nat list) option" where
  "getAllActivities fetchPage per_page =
     (let perPage = (case per_page of None \<Rightarrow> 200 | Some n \<Rightarrow> if n = 0 then 200 else n)
      in iterateActivities_loop fetchPage perPage 1 [] [])"

text \<open>
  Words for the pages of a fetch function at a page size: the items of page \<open>q\<close>;
  a page on which the loop goes on, fetched, not empty and not shorter than the page
  size; and a page on which it stops, fetched and empty or shorter than the page size.
\<close>

definition page_items :: "(nat \<Rightarrow> int \<Rightarrow> js_exn + 'a list) \<Rightarrow> int \<Rightarrow> nat \<Rightarrow> 'a list" where
  "page_items fetchPage perPage q =
     (case fetchPage q perPage of Inl e \<Rightarrow> [] | Inr xs \<Rightarrow> xs)"

definition full_page :: "(nat \<Rightarrow> int \<Rightarrow> js_exn + 'a list) \<Rightarrow> int \<Rightarrow> nat \<Rightarrow> bool" where
  "full_page fetchPage perPage q =
     (case fetchPage q perPage of
        Inl e \<Rightarrow> False
      | Inr xs \<Rightarrow> xs \<noteq> [] \<and> \<not> int (length xs) < perPage)"

definition last_page :: "(nat \<Rightarrow> int \<Rightarrow> js_exn + 'a list) \<Rightarrow> int \<Rightarrow> nat \<Rightarrow> bool" where
  "last_page fetchPage perPage q =
     (case fetchPage q perPage of
        Inl e \<Rightarrow> False
      | Inr xs \<Rightarrow> xs = [] \<or> int (length xs) < perPage)"

text \<open>The stub of the test suite: \<open>[a, b]\<close>, then \<open>[c]\<close>, then nothing.\<close>

definition stub_pages :: "nat \<Rightarrow> int \<Rightarrow> js_exn + string list" where
  "stub_pages page perPage =
     (if page = 1 then Inr [''a'', ''b''] else if page = 2 then Inr [''c''] else Inr [])"

subsection \<open>Webhook events (src/unnamed/part_002, the revision of client.ts that has them)\<close>

definition invalid_payload :: js_exn where
  "invalid_payload = Strava (StravaValidationError ''Invalid webhook event payload'')"

text \<open>
  One operand \<open>typeof event.k !== t\<close> of the type check, and the short-circuit
  \<open>||\<close> of two operands, the second evaluated only when the first is false.
\<close>

definition type_differs :: "jsval \<Rightarrow> string \<Rightarrow> js_type \<Rightarrow> js_exn + bool" where
  "type_differs event k t =
     (case get_prop event k of Inl e \<Rightarrow> Inl e | Inr v \<Rightarrow> Inr (typeof v \<noteq> t))"

definition or_else :: "js_exn + bool \<Rightarrow> js_exn + bool \<Rightarrow> js_exn + bool" where
  "or_else a b = (case a of Inl e \<Rightarrow> Inl e | Inr x \<Rightarrow> if x then Inr True else b)"

definition validObjectTypes :: "string list" where
  "validObjectTypes = [''activity'', ''athlete'']"

definition validAspectTypes :: "string list" where
  "validAspectTypes = [''create'', ''update'', ''delete'']"

definition parseWebhookEvent :: "jsval \<Rightarrow> js_exn + jsval" where
  "parseWebhookEvent payload =
     (case or_else (type_differs payload ''object_type'' TString)
            (or_else (type_differs payload ''object_id'' TNumber)
            (or_else (type_differs payload ''aspect_type'' TString)
            (or_else (type_differs payload ''owner_id'' TNumber)
            (or_else (type_differs payload ''subscription_id'' TNumber)
                     (type_differs payload ''event_time'' TNumber))))) of
        Inl e \<Rightarrow> Inl e
      | Inr bad \<Rightarrow>
          if bad then Inl invalid_payload
          else (case get_prop payload ''object_type'' of
                  Inl e \<Rightarrow> Inl e
                | Inr object_type \<Rightarrow>
                    if \<not> (object_type \<in> set (map JStr validObjectTypes))
                    then Inl invalid_payload
                    else (case get_prop payload ''aspect_type'' of
                            Inl e \<Rightarrow> Inl e
                          | Inr aspect_type \<Rightarrow>
                              if \<not> (aspect_type \<in> set (map JStr validAspectTypes))
                              then Inl invalid_payload
                              else Inr payload)))"

text \<open>
  A payload with all required fields, in the words of the interface
  \<open>StravaWebhookEvent\<close>: an object whose \<open>object_type\<close> and \<open>aspect_type\<close> are
  strings of the two enumerations and whose four other required fields are numbers.
\<close>

definition is_string_in :: "string list \<Rightarrow> jsval option \<Rightarrow> bool" where
  "is_string_in allowed v = (case v of Some (JStr s) \<Rightarrow> s \<in> set allowed | _ \<Rightarrow> False)"

definition is_number :: "jsval option \<Rightarrow> bool" where
  "is_number v = (case v of Some (JNum n) \<Rightarrow> True | _ \<Rightarrow> False)"

definition well_formed_event :: "(string \<times> jsval) list \<Rightarrow> bool" where
  "well_formed_event kvs =
     (is_string_in validObjectTypes (map_of kvs ''object_type'') \<and>
      is_number (map_of kvs ''object_id'') \<and>
      is_string_in validAspectTypes (map_of kvs ''aspect_type'') \<and>
      is_number (map_of kvs ''owner_id'') \<and>
      is_number (map_of kvs ''subscription_id'') \<and>
      is_number (map_of kvs ''event_time''))"

subsection \<open>The error classification in the words of the specification\<close>

text \<open>
  The message of a classified response: the string form of the body's message when that
  is truthy, else the template with the status. The retry-after of a rate-limit error:
  the header read by \<open>parseInt\<close> when there is a non-empty one.
\<close>

definition body_message :: "error_response \<Rightarrow> js_exn + string" where
  "body_message r =
     (if js_truthy (opt_prop (data r) ''message'') then ToString (opt_prop (data r) ''message'')
      else Inr (''Request failed with status '' @ string_of_nat (status r)))"

definition retry_after :: "error_response \<Rightarrow> js_number option" where
  "retry_after r =
     (case headers r ''retry-after'' of
        Some h \<Rightarrow> if h \<noteq> [] then Some (parseInt h) else None
      | None \<Rightarrow> None)"

section \<open>Interleaved callers of refreshTokenIfNeeded\<close>

text \<open>
  JavaScript runs one piece of code at a time; an \<open>async\<close> function runs without
  interruption from its call to its first \<open>await\<close>, and from each resumption to the
  next \<open>await\<close> or its end. A run of several callers is therefore a sequence of
  events, each executed as a whole:
  \<^item> \<open>Call now\<close>: a new caller enters \<open>refreshTokenIfNeeded\<close> at clock reading
    \<open>now\<close> and runs until it returns, throws or awaits a refresh promise. The caller that
    finds no promise runs \<open>refreshAccessToken\<close> up to its \<open>fetch\<close>, which issues
    the network call, and stores the promise, all in this one event.
  \<^item> \<open>Settle p\<close>: the \<open>fetch\<close> behind promise \<open>p\<close> settles, and
    \<open>refreshAccessToken\<close> runs on to its end, which settles \<open>p\<close>.
  \<^item> \<open>Resume i\<close>: caller \<open>i\<close>, whose awaited promise has settled, resumes; the
    caller that installed the promise clears it in its \<open>finally\<close> block.
  A promise is an index into the list of promises created so far. Between the settling
  of the \<open>fetch\<close> and the settling of the promise \<open>refreshAccessToken\<close> is
  suspended a few more times (reading the body, awaiting the callback); a caller that
  enters in between finds the marker set and waits, as it does just before or just after
  \<open>Settle\<close>, so these steps are taken together.
\<close>

datatype promise = Pending "jsval fetch_options" fetch_result | Settled "js_exn + jsval"

record caller =
  awaits :: "nat option"
  installed :: bool
  result :: "(js_exn + unit) option"
  observed :: "tokens option"

record conc =
  cl :: "nat client"
  wd :: world
  promises :: "promise list"
  callers :: "caller list"

datatype event = Call int | Settle nat | Resume nat

text \<open>
  The call \<open>this.refreshAccessToken()\<close> up to its first suspension: a promise that is
  already rejected when there is no refresh token, else a pending promise with the
  network call issued.
\<close>

definition start_refresh :: "network \<Rightarrow> nat client \<times> world \<Rightarrow> promise \<times> world" where
  "start_refresh net cw =
     (case cw of (c, w) \<Rightarrow>
        (case tokenToRefresh None c of
           Inl e \<Rightarrow> (Settled (Inl e), w)
         | Inr r \<Rightarrow>
             let options = requestRaw_options POST (refresh_options c r);
                 req = \<lparr>req_url = STRAVA_OAUTH_BASE_URL @ ''/token'',
                        req_method = f_method options,
                        req_headers = f_headers options, req_body = f_body options\<rparr>;
                 res = fetch (net (length (net_log w)) req) (fetchWithTimeout_timeout options c)
             in (Pending options res, w\<lparr>net_log := net_log w @ [req]\<rparr>)))"

text \<open>The rest of \<open>refreshAccessToken\<close>, from the settling of its \<open>fetch\<close>.\<close>

definition finish_refresh ::
  "jsval fetch_options \<Rightarrow> fetch_result \<Rightarrow> nat client \<times> world
     \<Rightarrow> (js_exn + jsval) \<times> nat client \<times> world" where
  "finish_refresh options res cw =
     (case cw of (c, w) \<Rightarrow>
        (case fetchWithTimeout_settle options res c of
           (Inl e, c') \<Rightarrow> (Inl e, c', w)
         | (Inr d, c') \<Rightarrow> refreshAccessToken_store d (c', w)))"

definition returned :: "(js_exn + unit) \<Rightarrow> tokens option \<Rightarrow> caller" where
  "returned r t = \<lparr>awaits = None, installed = False, result = Some r, observed = t\<rparr>"

definition awaiting :: "nat \<Rightarrow> bool \<Rightarrow> caller" where
  "awaiting p l = \<lparr>awaits = Some p, installed = l, result = None, observed = None\<rparr>"

text \<open>What awaiting a settled refresh promise gives a caller of \<open>refreshTokenIfNeeded\<close>.\<close>

definition settled_result :: "js_exn + jsval \<Rightarrow> js_exn + unit" where
  "settled_result out = (case out of Inl e \<Rightarrow> Inl e | Inr v \<Rightarrow> Inr ())"

definition step :: "network \<Rightarrow> event \<Rightarrow> conc \<Rightarrow> conc option" where
  "step net ev s =
     (case ev of
        Call now \<Rightarrow>
          (case tokens (cl s) of
             None \<Rightarrow> Some (s\<lparr>callers := callers s @ [returned (Inr ()) None]\<rparr>)
           | Some t \<Rightarrow>
               (case shouldRefresh now (cl s) t of
                  Inl e \<Rightarrow> Some (s\<lparr>callers := callers s @ [returned (Inl e) (Some t)]\<rparr>)
                | Inr due \<Rightarrow>
                    if due then
                      (case refreshPromise (cl s) of
                         Some p \<Rightarrow> Some (s\<lparr>callers := callers s @ [awaiting p False]\<rparr>)
                       | None \<Rightarrow>
                           (case start_refresh net (cl s, wd s) of
                              (pr, w') \<Rightarrow>
                                Some (s\<lparr>cl := (cl s)\<lparr>refreshPromise :=
                                                       Some (length (promises s))\<rparr>,
                                        wd := w',
                                        promises := promises s @ [pr],
                                        callers := callers s @
                                                     [awaiting (length (promises s)) True]\<rparr>)))
                    else Some (s\<lparr>callers := callers s @ [returned (Inr ()) (Some t)]\<rparr>)))
      | Settle p \<Rightarrow>
          if p < length (promises s) then
            (case promises s ! p of
               Settled out \<Rightarrow> None
             | Pending options res \<Rightarrow>
                 (case finish_refresh options res (cl s, wd s) of
                    (out, c', w') \<Rightarrow>
                      Some (s\<lparr>cl := c', wd := w',
                              promises := (promises s)[p := Settled out]\<rparr>)))
          else None
      | Resume i \<Rightarrow>
          if i < length (callers s) then
            (case awaits (callers s ! i) of
               None \<Rightarrow> None
             | Some p \<Rightarrow>
                 if result (callers s ! i) \<noteq> None \<or> \<not> p < length (promises s) then None
                 else (case promises s ! p of
                         Pending options res \<Rightarrow> None
                       | Settled out \<Rightarrow>
                           let c' = (if installed (callers s ! i)
                                     then (cl s)\<lparr>refreshPromise := None\<rparr> else cl s)
                           in Some (s\<lparr>cl := c',
                                      callers := (callers s)
                                        [i := (callers s ! i)
                                           \<lparr>result := Some (settled_result out),
                                            observed := tokens c'\<rparr>]\<rparr>)))
          else None)"

fun run :: "network \<Rightarrow> event list \<Rightarrow> conc \<Rightarrow> conc option" where
  "run net [] s = Some s"
| "run net (ev # evs) s = (case step net ev s of None \<Rightarrow> None | Some s' \<Rightarrow> run net evs s')"

text \<open>
  A client with nothing in flight. The calls of a run are concurrent when each caller
  enters before any caller has resumed: no \<open>Call\<close> comes after a \<open>Resume\<close>.
  (JavaScript resumes the callers in the order in which they began to wait, the
  installing caller first; the runs here may resume them in any order.)
\<close>

definition idle :: "nat client \<Rightarrow> world \<Rightarrow> conc" where
  "idle c w = \<lparr>cl = c\<lparr>refreshPromise := None\<rparr>, wd = w, promises = [], callers = []\<rparr>"

fun is_Call :: "event \<Rightarrow> bool" where
  "is_Call (Call now) = True"
| "is_Call ev = False"

fun is_Resume :: "event \<Rightarrow> bool" where
  "is_Resume (Resume i) = True"
| "is_Resume ev = False"

fun concurrent :: "event list \<Rightarrow> bool" where
  "concurrent [] = True"
| "concurrent (ev # evs) = ((is_Resume ev \<longrightarrow> \<not> list_ex is_Call evs) \<and> concurrent evs)"

text \<open>
  The state of a run in which at most one refresh has been started, as seen from the
  client \<open>c0\<close> and the world \<open>w0\<close> it began with. Either no refresh has been
  started: nothing has changed and no caller has awaited. Or exactly one has: there is
  one promise; one caller installed it, and no caller before it awaited; every caller
  that awaited awaits it; the network
  log has grown by the one call of that refresh, if it got as far as making it; the
  marker is set exactly as long as the installing caller has not resumed; and every
  caller that has resumed got the outcome of that promise and saw the tokens the client
  holds now.
\<close>

definition resumed :: "caller \<Rightarrow> bool" where
  "resumed a = (awaits a \<noteq> None \<and> result a \<noteq> None)"

definition nobody_resumed :: "conc \<Rightarrow> bool" where
  "nobody_resumed s = list_all (\<lambda>a. \<not> resumed a) (callers s)"

definition refresh_calls :: "nat client \<Rightarrow> nat" where
  "refresh_calls c = (case tokenToRefresh None c of Inl e \<Rightarrow> 0 | Inr r \<Rightarrow> 1)"

definition installer_waiting :: "caller list \<Rightarrow> bool" where
  "installer_waiting cs = list_ex (\<lambda>a. installed a \<and> result a = None) cs"

definition awaits_first :: "caller \<Rightarrow> bool" where
  "awaits_first a =
     ((awaits a = None \<or> awaits a = Some 0) \<and> (installed a \<longrightarrow> awaits a = Some 0))"

definition got_outcome :: "conc \<Rightarrow> caller \<Rightarrow> bool" where
  "got_outcome s a =
     (resumed a \<longrightarrow>
        (\<exists>out. promises s = [Settled out] \<and> result a = Some (settled_result out) \<and>
               observed a = tokens (cl s)))"

definition installer_first :: "caller list \<Rightarrow> bool" where
  "installer_first cs =
     (\<forall>i<length cs. installed (cs ! i) \<longrightarrow> (\<forall>j<i. awaits (cs ! j) = None))"

definition single_flight :: "nat client \<Rightarrow> world \<Rightarrow> conc \<Rightarrow> bool" where
  "single_flight c0 w0 s =
     ((promises s = [] \<and> cl s = c0 \<and> wd s = w0 \<and>
       list_all (\<lambda>a. awaits a = None \<and> \<not> installed a) (callers s))
      \<or>
      (length (promises s) = 1 \<and>
       length (filter installed (callers s)) = 1 \<and>
       list_all awaits_first (callers s) \<and>
       length (net_log (wd s)) = length (net_log w0) + refresh_calls c0 \<and>
       refreshPromise (cl s) = (if installer_waiting (callers s) then Some 0 else None) \<and>
       list_all (got_outcome s) (callers s) \<and>
       installer_first (callers s)))"

subsection \<open>Values used in the evaluations below\<close>

definition example_config :: client_config where
  "example_config =
     \<lparr>cfg_clientId = ''client-id'', cfg_clientSecret = ''client-secret'',
      cfg_redirectUri = None, cfg_autoRefresh = None, cfg_refreshBuffer = None,
      cfg_timeout = None, cfg_onTokenRefresh = None\<rparr>"

definition empty_world :: world where
  "empty_world = \<lparr>net_log = [], cb_log = []\<rparr>"

definition json_response :: "nat \<Rightarrow> jsval \<Rightarrow> http_response" where
  "json_response st v = \<lparr>r_status = st, r_headers = Map.empty, r_json = Some v, r_text = []\<rparr>"

definition token_json :: "string \<Rightarrow> string \<Rightarrow> rat \<Rightarrow> jsval" where
  "token_json a r x =
     JObj [(''token_type'', JStr ''Bearer''), (''expires_at'', JNum (Num x)),
           (''expires_in'', JNum (Num 21600)), (''refresh_token'', JStr r),
           (''access_token'', JStr a)]"

text \<open>
  Clients whose tokens expire at second 1060, within the default buffer of 600 seconds
  from second 1000 on: one with a refresh token and one whose refresh token is empty.
\<close>

definition due_client :: "nat client" where
  "due_client =
     (StravaClient example_config)
       \<lparr>tokens := Some \<lparr>accessToken = JStr ''expiring-token'',
                         refreshToken = JStr ''refresh-token'',
                         expiresAt = JNum (Num 1060)\<rparr>\<rparr>"

definition due_client_no_refresh_token :: "nat client" where
  "due_client_no_refresh_token =
     (StravaClient example_config)
       \<lparr>tokens := Some \<lparr>accessToken = JStr ''expiring-token'', refreshToken = JStr [],
                         expiresAt = JNum (Num 1060)\<rparr>\<rparr>"

text \<open>
  A remote side that answers after \<open>d\<close> milliseconds: a token request with fresh
  tokens, any other request with an athlete.
\<close>

definition answering :: "int \<Rightarrow> network" where
  "answering d n req =
     \<lparr>latency = Some d,
      outcome = Fulfilled
        (if req_url req = STRAVA_OAUTH_BASE_URL @ ''/token''
         then json_response 200 (token_json ''new-access'' ''new-refresh'' 100000)
         else json_response 200 (JObj [(''id'', JNum (Num 123))]))\<rparr>"

text \<open>
  A client that holds tokens and a rate-limit snapshot, and a remote side that answers
  every request after 10 milliseconds with fresh tokens and with rate-limit headers.
\<close>

definition holding_client :: "nat client" where
  "holding_client =
     due_client
       \<lparr>rateLimitInfo :=
          Some \<lparr>shortTerm = \<lparr>usage = Some (Num 50), limit = Some (Num 100)\<rparr>,
                longTerm = \<lparr>usage = Some (Num 200), limit = Some (Num 1000)\<rparr>\<rparr>\<rparr>"

definition granting :: network where
  "granting n req =
     \<lparr>latency = Some 10,
      outcome = Fulfilled
        \<lparr>r_status = 200,
         r_headers = [''x-ratelimit-limit'' \<mapsto> ''600,30000'',
                      ''x-ratelimit-usage'' \<mapsto> ''7,70''],
         r_json = Some (token_json ''new-access'' ''new-refresh'' 100000),
         r_text = []\<rparr>\<rparr>"

section \<open>Properties of the error classifier\<close>

lemma response_message_eq:
  "ToString (if js_truthy (opt_prop (data r) ''message'') then opt_prop (data r) ''message''
             else JStr (''Request failed with status '' @ string_of_nat (status r)))
   = body_message r"
  by (simp add: body_message_def)

text \<open>
  Claim C6, as the code has it. A response is classified by its status alone: 401 is
  an authentication error, 403 an authorization error, 404 a not-found error, 429 a
  rate-limit error, 400 a validation error, 500 and above an API error that keeps the
  status, and every other status the generic HTTP error. The message is the string form
  of the body's message when that is truthy, so the message itself when it is a
  non-empty string, and the template with the status when the body has no message or a
  falsy one; when the conversion of a truthy message to a string throws, the classifier
  throws that error. The rate-limit error carries the limit and usage headers as they are
  and the retry-after header as \<open>parseInt\<close> reads it, when it is not empty. A
  non-empty context label prefixes the message of the generic HTTP error only.
\<close>

theorem parseStravaError_by_status:
  "(\<forall>m. body_message r = Inr m \<longrightarrow>
      (status r = 401 \<longrightarrow>
         parseStravaError (AResponse r) = Inr (StravaAuthenticationError m)) \<and>
      (status r = 403 \<longrightarrow>
         parseStravaError (AResponse r) = Inr (StravaAuthorizationError m)) \<and>
      (status r = 404 \<longrightarrow>
         parseStravaError (AResponse r) = Inr (StravaNotFoundError m)) \<and>
      (status r = 429 \<longrightarrow>
         parseStravaError (AResponse r) =
           Inr (StravaRateLimitError m (retry_after r)
                  (headers r ''x-ratelimit-limit'') (headers r ''x-ratelimit-usage''))) \<and>
      (status r = 400 \<longrightarrow>
         parseStravaError (AResponse r) = Inr (StravaValidationError m)) \<and>
      (status r \<ge> 500 \<longrightarrow>
         parseStravaError (AResponse r) = Inr (StravaApiError m (status r))) \<and>
      (status r \<notin> {400, 401, 403, 404, 429} \<and> status r < 500 \<longrightarrow>
         parseStravaError (AResponse r) =
           Inr (StravaError
                  (case resp_context r of
                     Some c \<Rightarrow> if c \<noteq> [] then c @ '': '' @ m else m
                   | None \<Rightarrow> m)
                  ''STRAVA_HTTP_ERROR'' (Some (status r))))) \<and>
   (\<forall>e. body_message r = Inl e \<longrightarrow> parseStravaError (AResponse r) = Inl e) \<and>
   (\<forall>s. opt_prop (data r) ''message'' = JStr s \<and> s \<noteq> [] \<longrightarrow> body_message r = Inr s) \<and>
   (\<not> js_truthy (opt_prop (data r) ''message'') \<longrightarrow>
      body_message r = Inr (''Request failed with status '' @ string_of_nat (status r)))"
proof -
  have 1: "\<forall>m. body_message r = Inr m \<longrightarrow>
      (status r = 401 \<longrightarrow>
         parseStravaError (AResponse r) = Inr (StravaAuthenticationError m)) \<and>
      (status r = 403 \<longrightarrow>
         parseStravaError (AResponse r) = Inr (StravaAuthorizationError m)) \<and>
      (status r = 404 \<longrightarrow>
         parseStravaError (AResponse r) = Inr (StravaNotFoundError m)) \<and>
      (status r = 429 \<longrightarrow>
         parseStravaError (AResponse r) =
           Inr (StravaRateLimitError m (retry_after r)
                  (headers r ''x-ratelimit-limit'') (headers r ''x-ratelimit-usage''))) \<and>
      (status r = 400 \<longrightarrow>
         parseStravaError (AResponse r) = Inr (StravaValidationError m)) \<and>
      (status r \<ge> 500 \<longrightarrow>
         parseStravaError (AResponse r) = Inr (StravaApiError m (status r))) \<and>
      (status r \<notin> {400, 401, 403, 404, 429} \<and> status r < 500 \<longrightarrow>
         parseStravaError (AResponse r) =
           Inr (StravaError
                  (case resp_context r of
                     Some c \<Rightarrow> if c \<noteq> [] then c @ '': '' @ m else m
                   | None \<Rightarrow> m)
                  ''STRAVA_HTTP_ERROR'' (Some (status r))))"
    apply (simp only: parseStravaError.simps Let_def construct_def response_message_eq)
    apply (simp add: retry_after_def truthy_def split: option.splits)
    done
  have 2: "\<forall>e. body_message r = Inl e \<longrightarrow> parseStravaError (AResponse r) = Inl e"
    apply (simp only: parseStravaError.simps Let_def construct_def response_message_eq)
    apply (simp split: option.splits)
    done
  have 3: "\<forall>s. opt_prop (data r) ''message'' = JStr s \<and> s \<noteq> [] \<longrightarrow> body_message r = Inr s"
    by (simp add: body_message_def)
  have 4: "\<not> js_truthy (opt_prop (data r) ''message'') \<longrightarrow>
      body_message r = Inr (''Request failed with status '' @ string_of_nat (status r))"
    by (simp add: body_message_def)
  from 1 2 3 4 show ?thesis by blast
qed

text \<open>
  The theorem at the responses of the test suite: the rate-limit response with its three
  headers, a 503 whose status is kept, and a 418 with a context label; and at a body
  whose message is the number 42.
\<close>

theorem parseStravaError_by_status_witness:
  "parseStravaError (AResponse
      \<lparr>status = 429, data = JObj [(''message'', JStr ''Rate limit exceeded'')],
       headers = [''retry-after'' \<mapsto> ''900'', ''x-ratelimit-limit'' \<mapsto> ''100,1000'',
                  ''x-ratelimit-usage'' \<mapsto> ''100,500''],
       resp_context = None\<rparr>)
     = Inr (StravaRateLimitError ''Rate limit exceeded'' (Some (Num 900))
              (Some ''100,1000'') (Some ''100,500'')) \<and>
   parseStravaError (AResponse
      \<lparr>status = 401, data = JObj [(''message'', JStr ''Invalid token'')],
       headers = Map.empty, resp_context = None\<rparr>)
     = Inr (StravaAuthenticationError ''Invalid token'') \<and>
   parseStravaError (AResponse
      \<lparr>status = 403, data = JObj [(''message'', JStr ''Access denied'')],
       headers = Map.empty, resp_context = Some ''Deauthorize''\<rparr>)
     = Inr (StravaAuthorizationError ''Access denied'') \<and>
   parseStravaError (AResponse
      \<lparr>status = 404, data = JObj [(''message'', JNum (Num 42))],
       headers = Map.empty, resp_context = None\<rparr>)
     = Inr (StravaNotFoundError ''42'') \<and>
   parseStravaError (AResponse
      \<lparr>status = 400, data = JObj [(''message'', JStr ''Invalid parameters'')],
       headers = Map.empty, resp_context = None\<rparr>)
     = Inr (StravaValidationError ''Invalid parameters'') \<and>
   parseStravaError (AResponse
      \<lparr>status = 503, data = JUndefined, headers = Map.empty, resp_context = None\<rparr>)
     = Inr (StravaApiError ''Request failed with status 503'' 503) \<and>
   parseStravaError (AResponse
      \<lparr>status = 418, data = JObj [], headers = Map.empty,
       resp_context = Some ''Deauthorize''\<rparr>)
     = Inr (StravaError ''Deauthorize: Request failed with status 418'' ''STRAVA_HTTP_ERROR''
              (Some 418)) \<and>
   parseStravaError (AResponse
      \<lparr>status = 404, data = JObj [(''message'', JObj [(''toString'', JNull)])],
       headers = Map.empty, resp_context = None\<rparr>)
     = Inl (JsError TypeErrorC ''TypeError'' ''Cannot convert object to primitive value'')"
  using
    parseStravaError_by_status [of "\<lparr>status = 429,
       data = JObj [(''message'', JStr ''Rate limit exceeded'')],
       headers = [''retry-after'' \<mapsto> ''900'', ''x-ratelimit-limit'' \<mapsto> ''100,1000'',
                  ''x-ratelimit-usage'' \<mapsto> ''100,500''],
       resp_context = None\<rparr>"]
    parseStravaError_by_status [of "\<lparr>status = 401,
       data = JObj [(''message'', JStr ''Invalid token'')],
       headers = Map.empty, resp_context = None\<rparr>"]
    parseStravaError_by_status [of "\<lparr>status = 403,
       data = JObj [(''message'', JStr ''Access denied'')],
       headers = Map.empty, resp_context = Some ''Deauthorize''\<rparr>"]
    parseStravaError_by_status [of "\<lparr>status = 404,
       data = JObj [(''message'', JNum (Num 42))],
       headers = Map.empty, resp_context = None\<rparr>"]
    parseStravaError_by_status [of "\<lparr>status = 400,
       data = JObj [(''message'', JStr ''Invalid parameters'')],
       headers = Map.empty, resp_context = None\<rparr>"]
    parseStravaError_by_status [of "\<lparr>status = 503, data = JUndefined,
       headers = Map.empty, resp_context = None\<rparr>"]
    parseStravaError_by_status [of "\<lparr>status = 418, data = JObj [],
       headers = Map.empty, resp_context = Some ''Deauthorize''\<rparr>"]
    parseStravaError_by_status [of "\<lparr>status = 404,
       data = JObj [(''message'', JObj [(''toString'', JNull)])],
       headers = Map.empty, resp_context = None\<rparr>"]
  by (simp add: body_message_def retry_after_def parseInt_def is_decimal_def
        digit_of_def digits_value_def string_of_nat.simps digit_char_def
        number_to_string_def string_of_int_def)

text \<open>
  Claim C6 as stated fails where the body has a message that is the empty string: the
  field is present, and the error carries the template instead of it. It also fails
  where the context label supplied is the empty string: the message of the generic error
  gets no prefix.
\<close>

theorem parseStravaError_empty_message_counterexample:
  "map_of [(''message'', JStr [])] ''message'' = Some (JStr []) \<and>
   parseStravaError (AResponse
      \<lparr>status = 404, data = JObj [(''message'', JStr [])], headers = Map.empty,
       resp_context = None\<rparr>) = Inr (StravaNotFoundError ''Request failed with status 404'') \<and>
   parseStravaError (AResponse
      \<lparr>status = 418, data = JObj [(''message'', JStr ''teapot'')], headers = Map.empty,
       resp_context = Some []\<rparr>)
     = Inr (StravaError ''teapot'' ''STRAVA_HTTP_ERROR'' (Some 418))"
  by (simp add: construct_def truthy_def string_of_nat.simps digit_char_def)

text \<open>
  The retry-after header is carried as the number \<open>parseInt\<close> reads from it, not as
  its text, whatever the header holds.
\<close>

lemma parseStravaError_retry_after_number:
  "parseStravaError (AResponse
      \<lparr>status = 429, data = JUndefined,
       headers = [''retry-after'' \<mapsto> ''Wed, 21 Oct 2015 07:28:00 GMT''],
       resp_context = None\<rparr>)
     = Inr (StravaRateLimitError ''Request failed with status 429''
              (Some (parseInt ''Wed, 21 Oct 2015 07:28:00 GMT'')) None None)"
  by (simp add: construct_def truthy_def string_of_nat.simps digit_char_def)




section \<open>Properties of the rate-limit snapshot and of the token accessors\<close>

lemma Number_examples [simp]:
  "Number ''100'' = Num 100" "Number ''1000'' = Num 1000" "Number ''50'' = Num 50"
  "Number ''200'' = Num 200" "Number ''1'' = Num 1" "Number ''2'' = Num 2"
  by (simp_all add: Number_def is_decimal_def digit_of_def digits_value_def)

text \<open>
  Claim C3, as the code has it. The snapshot is overwritten exactly when both headers are
  present and not empty. All four fields are then written together, from this response
  alone: each is \<open>Number\<close> of the first or second comma-separated piece of its
  header, whatever that piece is, and \<open>undefined\<close> for a missing second piece. When
  a header is absent or empty the client is left as it was.
\<close>

theorem updateRateLimitInfo_overwrite:
  "(\<forall>l u. hs ''x-ratelimit-limit'' = Some l \<and> hs ''x-ratelimit-usage'' = Some u \<and>
           l \<noteq> [] \<and> u \<noteq> [] \<longrightarrow>
      updateRateLimitInfo hs c =
        c\<lparr>rateLimitInfo :=
             Some \<lparr>shortTerm = \<lparr>usage = at_index (map Number (split_comma u)) 0,
                                 limit = at_index (map Number (split_comma l)) 0\<rparr>,
                   longTerm = \<lparr>usage = at_index (map Number (split_comma u)) 1,
                                limit = at_index (map Number (split_comma l)) 1\<rparr>\<rparr>\<rparr>) \<and>
   (hs ''x-ratelimit-limit'' = None \<or> hs ''x-ratelimit-limit'' = Some [] \<or>
    hs ''x-ratelimit-usage'' = None \<or> hs ''x-ratelimit-usage'' = Some [] \<longrightarrow>
      updateRateLimitInfo hs c = c)"
  by (auto simp: updateRateLimitInfo_def truthy_def Let_def split: option.splits)

text \<open>The headers of the test suite give its snapshot; no headers leave the client as it is.\<close>

theorem updateRateLimitInfo_overwrite_witness:
  "rateLimitInfo (updateRateLimitInfo
      [''x-ratelimit-limit'' \<mapsto> ''100,1000'', ''x-ratelimit-usage'' \<mapsto> ''50,200'']
      (StravaClient example_config :: nat client))
     = Some \<lparr>shortTerm = \<lparr>usage = Some (Num 50), limit = Some (Num 100)\<rparr>,
             longTerm = \<lparr>usage = Some (Num 200), limit = Some (Num 1000)\<rparr>\<rparr> \<and>
   updateRateLimitInfo Map.empty (StravaClient example_config :: nat client)
     = StravaClient example_config"
  using updateRateLimitInfo_overwrite [of
      "[''x-ratelimit-limit'' \<mapsto> ''100,1000'', ''x-ratelimit-usage'' \<mapsto> ''50,200'']"
      "StravaClient example_config :: nat client"]
    updateRateLimitInfo_overwrite [of Map.empty "StravaClient example_config :: nat client"]
  by (simp add: at_index_def)

text \<open>
  Claim C3 as stated fails on a malformed header: with a limit header that is not a pair
  of numbers, a client without a snapshot gets one, whose short-term limit is
  \<open>Number("abc")\<close> and whose long-term limit is \<open>undefined\<close>.
\<close>

theorem updateRateLimitInfo_malformed_counterexample:
  "rateLimitInfo (StravaClient example_config :: nat client) = None \<and>
   rateLimitInfo (updateRateLimitInfo
      [''x-ratelimit-limit'' \<mapsto> ''abc'', ''x-ratelimit-usage'' \<mapsto> ''1,2'']
      (StravaClient example_config :: nat client))
     = Some \<lparr>shortTerm = \<lparr>usage = Some (Num 1), limit = Some (Number ''abc'')\<rparr>,
             longTerm = \<lparr>usage = Some (Num 2), limit = None\<rparr>\<rparr>"
  by (simp add: updateRateLimitInfo_def truthy_def at_index_def StravaClient_def)

text \<open>
  The first half of claim C2 holds: after \<open>setTokens\<close>, \<open>getTokens\<close> returns the
  object that was set.
\<close>

lemma setTokens_getTokens_roundtrip:
  "deref (setTokens r s) (getTokens (setTokens r s)) = objects s r"
  by (simp add: deref_def setTokens_def getTokens_def)

text \<open>
  The second half does not: \<open>getTokens\<close> returns the stored reference itself, so an
  assignment through it is seen by every later \<open>getTokens\<close>.
\<close>

lemma getTokens_aliases_stored_object:
  "objects s r = Some t \<Longrightarrow>
   deref (assign_accessToken r v (setTokens r s))
         (getTokens (assign_accessToken r v (setTokens r s)))
     = Some (t\<lparr>accessToken := v\<rparr>)"
  by (simp add: deref_def setTokens_def getTokens_def assign_accessToken_def)

text \<open>
  Claim C2 at the input of the test suite (``should return a copy of tokens to prevent
  external mutation''): the tokens are set, the object returned by \<open>getTokens\<close> is
  assigned a new access token, and the next \<open>getTokens\<close> returns the mutated token
  where the test expects \<open>access-123\<close>.
\<close>

theorem getTokens_exposes_stored_object:
  "getTokens (setTokens 0
      \<lparr>objects = [0 \<mapsto> \<lparr>accessToken = JStr ''access-123'',
                          refreshToken = JStr ''refresh-456'',
                          expiresAt = JNum (Num 3600)\<rparr>],
       this_tokens = None\<rparr>) = Some 0 \<and>
   deref (assign_accessToken 0 (JStr ''mutated-token'') (setTokens 0
      \<lparr>objects = [0 \<mapsto> \<lparr>accessToken = JStr ''access-123'',
                          refreshToken = JStr ''refresh-456'',
                          expiresAt = JNum (Num 3600)\<rparr>],
       this_tokens = None\<rparr>))
     (getTokens (assign_accessToken 0 (JStr ''mutated-token'') (setTokens 0
      \<lparr>objects = [0 \<mapsto> \<lparr>accessToken = JStr ''access-123'',
                          refreshToken = JStr ''refresh-456'',
                          expiresAt = JNum (Num 3600)\<rparr>],
       this_tokens = None\<rparr>)))
     = Some \<lparr>accessToken = JStr ''mutated-token'', refreshToken = JStr ''refresh-456'',
             expiresAt = JNum (Num 3600)\<rparr>"
  by (simp add: deref_def setTokens_def getTokens_def assign_accessToken_def)

section \<open>Properties of the request pipeline\<close>

lemma updateRateLimitInfo_frame [simp]:
  "config (updateRateLimitInfo hs c) = config c"
  "tokens (updateRateLimitInfo hs c) = tokens c"
  "refreshPromise (updateRateLimitInfo hs c) = refreshPromise c"
  by (simp_all add: updateRateLimitInfo_def Let_def split: option.splits)

lemma fetchWithTimeout_settle_frame:
  assumes "fetchWithTimeout_settle options res c = (out, c')"
  shows "config c' = config c \<and> tokens c' = tokens c \<and>
         refreshPromise c' = refreshPromise c \<and> (f_skipRateLimit options \<longrightarrow> c' = c)"
proof (cases res)
  case (Rejected e)
  with assms show ?thesis by (simp add: fetchWithTimeout_settle_def)
next
  case (Fulfilled response)
  with assms have "c' = (if \<not> f_skipRateLimit options
                         then updateRateLimitInfo (r_headers response) c else c)"
    by (simp add: fetchWithTimeout_settle_def Let_def split: if_splits sum.splits)
  then show ?thesis by simp
qed

text \<open>
  \<open>fetchWithTimeout\<close> makes one network call, never calls the callback, and changes
  nothing in the client but the rate-limit snapshot, and not even that when
  \<open>skipRateLimit\<close> is set.
\<close>

lemma fetchWithTimeout_frame:
  assumes "fetchWithTimeout net url options (c, w) = (out, c', w')"
  shows "cb_log w' = cb_log w \<and>
         net_log w' = net_log w @ [\<lparr>req_url = url, req_method = f_method options,
                                    req_headers = f_headers options,
                                    req_body = f_body options\<rparr>] \<and>
         config c' = config c \<and> tokens c' = tokens c \<and>
         refreshPromise c' = refreshPromise c \<and> (f_skipRateLimit options \<longrightarrow> c' = c)"
proof -
  let ?req = "\<lparr>req_url = url, req_method = f_method options,
               req_headers = f_headers options, req_body = f_body options\<rparr>"
  let ?res = "fetch (net (length (net_log w)) ?req) (fetchWithTimeout_timeout options c)"
  obtain o1 c1 where s: "fetchWithTimeout_settle options ?res c = (o1, c1)"
    by (cases "fetchWithTimeout_settle options ?res c") auto
  with assms have "c' = c1" "w' = w\<lparr>net_log := net_log w @ [?req]\<rparr>"
    by (simp_all add: fetchWithTimeout_def Let_def)
  with fetchWithTimeout_settle_frame [OF s] show ?thesis by simp
qed

text \<open>
  Claim C4, first half, on \<open>fetchWithTimeout\<close>: the timer is set to the per-call
  value when the options carry one, else to the configured timeout. Second half: when
  that time passes before the operation settles, the call fails with a network error
  that says the request timed out.
\<close>

lemma fetchWithTimeout_timeout_choice:
  "fetchWithTimeout_timeout options c =
     (case f_timeout options of Some t \<Rightarrow> t | None \<Rightarrow> timeout (config c))"
  by (simp add: fetchWithTimeout_timeout_def split: option.splits)

lemma fetchWithTimeout_times_out:
  assumes "latency (net (length (net_log w))
             \<lparr>req_url = url, req_method = f_method options,
              req_headers = f_headers options, req_body = f_body options\<rparr>) = None \<or>
           (\<exists>d. latency (net (length (net_log w))
                   \<lparr>req_url = url, req_method = f_method options,
                    req_headers = f_headers options, req_body = f_body options\<rparr>) = Some d \<and>
                fetchWithTimeout_timeout options c \<le> d)"
  shows "fst (fetchWithTimeout net url options (c, w)) =
           Inl (Strava (StravaNetworkError ''Request timed out''))"
  using assms
  by (auto simp: fetchWithTimeout_def fetchWithTimeout_settle_def fetch_def abort_error_def
        Let_def)

text \<open>
  Claim C4 on \<open>request\<close>, at a client configured with a timeout of 5000 milliseconds
  and a remote side that answers after 10000: \<open>fetchWithTimeout\<close> times out, as the
  claim says, but \<open>getAthlete\<close>, which goes through \<open>request\<close>, waits and returns
  the answer, because \<open>request\<close> sets its timer to \<open>DEFAULT_TIMEOUT\<close>.
\<close>

theorem request_ignores_configured_timeout:
  "timeout (config (StravaClient (example_config\<lparr>cfg_timeout := Some 5000\<rparr>)
              :: settled client)) = 5000 \<and>
   fst (fetchWithTimeout (answering 10000) (STRAVA_API_BASE_URL @ ''/athlete'')
      \<lparr>f_method = GET, f_headers = [], f_body = None, f_parseResponse = response_json,
       f_context = None, f_skipRateLimit = False, f_timeout = None\<rparr>
      (StravaClient (example_config\<lparr>cfg_timeout := Some 5000\<rparr>) :: settled client,
       empty_world))
     = Inl (Strava (StravaNetworkError ''Request timed out'')) \<and>
   fst (getAthlete (answering 10000) 1000
      ((StravaClient (example_config\<lparr>cfg_timeout := Some 5000\<rparr>))
         \<lparr>tokens := Some \<lparr>accessToken = JStr ''valid-token'',
                           refreshToken = JStr ''refresh-token'',
                           expiresAt = JNum (Num 4600)\<rparr>\<rparr>, empty_world))
     = Inr (JObj [(''id'', JNum (Num 123))])"
  by code_simp

text \<open>
  Claim C7, as the code has it. A request that requires auth fails with the validation
  error, with the client unchanged and no network call made, when no tokens are stored,
  and also when the stored access token is falsy (the empty string, or no string at all)
  and the refresh step does not run: auto-refresh is off or the tokens are not due.
\<close>

theorem request_without_access_token:
  assumes "\<not> o_skipAuth options"
    and "tokens c = None \<or>
         (\<exists>t. tokens c = Some t \<and> \<not> js_truthy (accessToken t) \<and>
              (\<not> autoRefresh (config c) \<or> shouldRefresh now c t = Inr False))"
  shows "request net now method path options (c, w) =
           (Inl (Strava (StravaValidationError
                   ''No access token available. Please authenticate first.'')), c, w)"
  using assms
  by (auto simp: request_def refreshTokenIfNeeded_def getAuthHeaders_def Let_def)

theorem request_without_access_token_witness:
  "request (answering 10) 1000 GET ''/athlete''
     \<lparr>o_params = None, o_body = None, o_headers = None, o_baseUrl = None,
      o_skipAuth = False\<rparr>
     (StravaClient example_config, empty_world)
   = (Inl (Strava (StravaValidationError
             ''No access token available. Please authenticate first.'')),
      StravaClient example_config, empty_world) \<and>
   request (answering 10) 1000 GET ''/athlete''
     \<lparr>o_params = None, o_body = None, o_headers = None, o_baseUrl = None,
      o_skipAuth = False\<rparr>
     ((StravaClient (example_config\<lparr>cfg_autoRefresh := Some False\<rparr>))
        \<lparr>tokens := Some \<lparr>accessToken = JStr [], refreshToken = JStr ''old-refresh'',
                          expiresAt = JNum (Num 1060)\<rparr>\<rparr>, empty_world)
   = (Inl (Strava (StravaValidationError
             ''No access token available. Please authenticate first.'')),
      (StravaClient (example_config\<lparr>cfg_autoRefresh := Some False\<rparr>))
        \<lparr>tokens := Some \<lparr>accessToken = JStr [], refreshToken = JStr ''old-refresh'',
                          expiresAt = JNum (Num 1060)\<rparr>\<rparr>, empty_world) \<and>
   net_log empty_world = []"
  using request_without_access_token [of
      "\<lparr>o_params = None, o_body = None, o_headers = None, o_baseUrl = None,
        o_skipAuth = False\<rparr>"
      "StravaClient example_config" 1000 "answering 10" GET "''/athlete''" empty_world]
    request_without_access_token [of
      "\<lparr>o_params = None, o_body = None, o_headers = None, o_baseUrl = None,
        o_skipAuth = False\<rparr>"
      "(StravaClient (example_config\<lparr>cfg_autoRefresh := Some False\<rparr>))
        \<lparr>tokens := Some \<lparr>accessToken = JStr [], refreshToken = JStr ''old-refresh'',
                          expiresAt = JNum (Num 1060)\<rparr>\<rparr>"
      1000 "answering 10" GET "''/athlete''" empty_world]
  by (simp add: StravaClient_def empty_world_def)

text \<open>
  Claim C7 as stated fails where tokens are stored whose access token is empty and that
  are due for refresh: the refresh step comes first and calls the token endpoint, the
  refreshed access token is used, and the request is sent and succeeds.
\<close>

theorem request_empty_access_token_counterexample:
  "map req_url (net_log (snd (snd (getAthlete (answering 10) 1000
      ((StravaClient example_config)
         \<lparr>tokens := Some \<lparr>accessToken = JStr [], refreshToken = JStr ''old-refresh'',
                           expiresAt = JNum (Num 1060)\<rparr>\<rparr>, empty_world)))))
     = [''https://www.strava.com/oauth/token'', ''https://www.strava.com/api/v3/athlete''] \<and>
   fst (getAthlete (answering 10) 1000
      ((StravaClient example_config)
         \<lparr>tokens := Some \<lparr>accessToken = JStr [], refreshToken = JStr ''old-refresh'',
                           expiresAt = JNum (Num 1060)\<rparr>\<rparr>, empty_world))
     = Inr (JObj [(''id'', JNum (Num 123))])"
  by code_simp

section \<open>Properties of the token exchange and refresh\<close>

lemma get_prop_defined:
  "d \<noteq> JNull \<Longrightarrow> d \<noteq> JUndefined \<Longrightarrow> get_prop d k = Inr (opt_prop d k)"
  by (cases d) simp_all

lemma get_prop_Inr:
  "get_prop d k = Inr v \<Longrightarrow> v = opt_prop d k"
  by (cases d) simp_all

lemma tokens_of_Inr:
  "tokens_of d = Inr t \<Longrightarrow>
   t = \<lparr>accessToken = opt_prop d ''access_token'',
        refreshToken = opt_prop d ''refresh_token'',
        expiresAt = opt_prop d ''expires_at''\<rparr>"
  by (auto simp: tokens_of_def split: sum.splits dest!: get_prop_Inr)

lemma tokens_of_defined:
  "d \<noteq> JNull \<Longrightarrow> d \<noteq> JUndefined \<Longrightarrow>
   tokens_of d = Inr \<lparr>accessToken = opt_prop d ''access_token'',
                      refreshToken = opt_prop d ''refresh_token'',
                      expiresAt = opt_prop d ''expires_at''\<rparr>"
  by (simp add: tokens_of_def get_prop_defined)

text \<open>
  The end of \<open>refreshAccessToken\<close> makes no network call and leaves configuration,
  snapshot and marker alone; it either fails before storing anything, or stores the new
  tokens and calls the callback on them once.
\<close>

lemma refreshAccessToken_store_log:
  assumes "refreshAccessToken_store d (c, w) = (out, c', w')"
  shows "net_log w' = net_log w \<and> config c' = config c \<and>
         rateLimitInfo c' = rateLimitInfo c \<and> refreshPromise c' = refreshPromise c \<and>
         (cb_log w' = cb_log w \<and> c' = c \<and> (\<exists>e. out = Inl e) \<or>
          (\<exists>t. tokens_of d = Inr t \<and> tokens c' = Some t \<and> cb_log w' = cb_log w @ [t])) \<and>
         (\<forall>v. out = Inr v \<longrightarrow>
            v = d \<and> (\<exists>t. tokens_of d = Inr t \<and> tokens c' = Some t \<and>
                         cb_log w' = cb_log w @ [t]))"
  using assms
  by (auto simp: refreshAccessToken_store_def Let_def split: sum.splits option.splits)

text \<open>The exchange is one call of \<open>fetchWithTimeout\<close>, followed by the assignment.\<close>

lemma exchangeAuthorizationCode_unfold:
  "exchangeAuthorizationCode net authCode (c, w) =
     (case fetchWithTimeout_settle (requestRaw_options POST (exchange_options c authCode))
             (fetch (net (length (net_log w)) (exchange_request c authCode))
                (timeout (config c))) c of
        (Inl e, c1) \<Rightarrow> (Inl e, c1, w\<lparr>net_log := net_log w @ [exchange_request c authCode]\<rparr>)
      | (Inr d, c1) \<Rightarrow>
          (case tokens_of d of
             Inl e \<Rightarrow> (Inl e, c1, w\<lparr>net_log := net_log w @ [exchange_request c authCode]\<rparr>)
           | Inr t \<Rightarrow> (Inr d, c1\<lparr>tokens := Some t\<rparr>,
                       w\<lparr>net_log := net_log w @ [exchange_request c authCode]\<rparr>)))"
  by (simp add: exchangeAuthorizationCode_def requestRaw_def fetchWithTimeout_def Let_def
        exchange_request_def requestRaw_options_def fetchWithTimeout_timeout_def
        split: prod.splits sum.splits)

text \<open>
  Claim C10. A token exchange makes one network call, the token request, and never
  calls the \<open>onTokenRefresh\<close> callback; it leaves the configuration, the rate-limit
  snapshot and the refresh marker as they were. When the remote side answers the call in
  time with a successful response whose body is a value other than \<open>null\<close>, the
  exchange returns that value and the stored tokens, whatever they were, are replaced by
  the three fields of the response, as they are; an exchange that returns has done so;
  an exchange that fails leaves the client unchanged. A \<open>refreshAccessToken\<close> that
  returns from the same state has stored the three fields of its response and called the
  callback once, on the tokens it stored.
\<close>

theorem exchangeAuthorizationCode_overwrites:
  assumes "exchangeAuthorizationCode net authCode (c, w) = (out, c', w')"
  shows "cb_log w' = cb_log w \<and>
         config c' = config c \<and> rateLimitInfo c' = rateLimitInfo c \<and>
         refreshPromise c' = refreshPromise c \<and>
         net_log w' = net_log w @ [exchange_request c authCode] \<and>
         (\<forall>response d.
            fetch (net (length (net_log w)) (exchange_request c authCode))
              (timeout (config c)) = Fulfilled response \<and>
            ok response \<and> r_json response = Some d \<and> d \<noteq> JNull \<and> d \<noteq> JUndefined \<longrightarrow>
            out = Inr d \<and>
            tokens c' = Some \<lparr>accessToken = opt_prop d ''access_token'',
                              refreshToken = opt_prop d ''refresh_token'',
                              expiresAt = opt_prop d ''expires_at''\<rparr>) \<and>
         (\<forall>d. out = Inr d \<longrightarrow>
            tokens c' = Some \<lparr>accessToken = opt_prop d ''access_token'',
                              refreshToken = opt_prop d ''refresh_token'',
                              expiresAt = opt_prop d ''expires_at''\<rparr>) \<and>
         (\<forall>e. out = Inl e \<longrightarrow> c' = c) \<and>
         (\<forall>rt d c2 w2. refreshAccessToken net rt (c, w) = (Inr d, c2, w2) \<longrightarrow>
            tokens c2 = Some \<lparr>accessToken = opt_prop d ''access_token'',
                              refreshToken = opt_prop d ''refresh_token'',
                              expiresAt = opt_prop d ''expires_at''\<rparr> \<and>
            cb_log w2 = cb_log w @ [\<lparr>accessToken = opt_prop d ''access_token'',
                                     refreshToken = opt_prop d ''refresh_token'',
                                     expiresAt = opt_prop d ''expires_at''\<rparr>])"
proof -
  let ?opts = "requestRaw_options POST (exchange_options c authCode)"
  let ?res = "fetch (net (length (net_log w)) (exchange_request c authCode))
                (timeout (config c))"
  let ?w1 = "w\<lparr>net_log := net_log w @ [exchange_request c authCode]\<rparr>"
  let ?new = "\<lambda>d. \<lparr>accessToken = opt_prop d ''access_token'',
                    refreshToken = opt_prop d ''refresh_token'',
                    expiresAt = opt_prop d ''expires_at''\<rparr>"
  obtain o1 c1 where s: "fetchWithTimeout_settle ?opts ?res c = (o1, c1)"
    by (cases "fetchWithTimeout_settle ?opts ?res c") auto
  have skip: "f_skipRateLimit ?opts"
    by (simp add: requestRaw_options_def exchange_options_def)
  from fetchWithTimeout_settle_frame [OF s] skip have c1: "c1 = c" by simp
  from assms s c1 have e: "(out, c', w') =
      (case o1 of Inl e \<Rightarrow> (Inl e, c, ?w1)
       | Inr d \<Rightarrow> (case tokens_of d of Inl e \<Rightarrow> (Inl e, c, ?w1)
                   | Inr t \<Rightarrow> (Inr d, c\<lparr>tokens := Some t\<rparr>, ?w1)))"
    by (cases o1) (auto simp: exchangeAuthorizationCode_unfold)
  have frame: "cb_log w' = cb_log w \<and> config c' = config c \<and>
         rateLimitInfo c' = rateLimitInfo c \<and> refreshPromise c' = refreshPromise c \<and>
         net_log w' = net_log w @ [exchange_request c authCode]"
    using e by (auto split: sum.splits)
  have stored: "\<forall>d. out = Inr d \<longrightarrow> tokens c' = Some (?new d)"
    using e by (auto split: sum.splits dest: tokens_of_Inr)
  have failed: "\<forall>e. out = Inl e \<longrightarrow> c' = c"
    using e by (auto split: sum.splits)
  have success: "\<forall>response d. ?res = Fulfilled response \<and> ok response \<and>
            r_json response = Some d \<and> d \<noteq> JNull \<and> d \<noteq> JUndefined \<longrightarrow>
            out = Inr d \<and> tokens c' = Some (?new d)"
  proof (intro allI impI)
    fix response d
    assume a: "?res = Fulfilled response \<and> ok response \<and> r_json response = Some d \<and>
               d \<noteq> JNull \<and> d \<noteq> JUndefined"
    with s have "o1 = Inr d"
      by (simp add: fetchWithTimeout_settle_def requestRaw_options_def exchange_options_def
            response_json_def Let_def)
    with e a show "out = Inr d \<and> tokens c' = Some (?new d)"
      by (simp add: tokens_of_defined)
  qed
  have refresh: "\<forall>rt d c2 w2. refreshAccessToken net rt (c, w) = (Inr d, c2, w2) \<longrightarrow>
            tokens c2 = Some (?new d) \<and> cb_log w2 = cb_log w @ [?new d]"
  proof (intro allI impI)
    fix rt d c2 w2
    assume r: "refreshAccessToken net rt (c, w) = (Inr d, c2, w2)"
    then obtain tok where t: "tokenToRefresh rt c = Inr tok"
      by (cases "tokenToRefresh rt c") (auto simp: refreshAccessToken_def)
    obtain o3 c3 w3 where g: "fetchWithTimeout net (STRAVA_OAUTH_BASE_URL @ ''/token'')
        (requestRaw_options POST (refresh_options c tok)) (c, w) = (o3, c3, w3)"
      using prod_cases3 by blast
    from fetchWithTimeout_frame [OF g] have cb3: "cb_log w3 = cb_log w" by simp
    from r t g obtain d3 where
      "o3 = Inr d3" "refreshAccessToken_store d3 (c3, w3) = (Inr d, c2, w2)"
      by (cases o3) (auto simp: refreshAccessToken_def requestRaw_def)
    from refreshAccessToken_store_log [OF this(2)] cb3
    show "tokens c2 = Some (?new d) \<and> cb_log w2 = cb_log w @ [?new d]"
      by (auto dest: tokens_of_Inr)
  qed
  from frame success stored failed refresh show ?thesis by blast
qed

lemma refreshAccessToken_example:
  "fst (refreshAccessToken granting None (holding_client, empty_world))
     = Inr (token_json ''new-access'' ''new-refresh'' 100000)"
  by code_simp

text \<open>
  The theorem at a client that holds tokens and a rate-limit snapshot, and a remote side
  that answers the exchange with fresh tokens and with rate-limit headers: the exchange
  returns the response, the held tokens are replaced by the fresh ones, the snapshot is
  the one held before, the callback log stays empty, and the one call made is the token
  request. A refresh from the same state leaves the stored tokens in the callback log.
\<close>

theorem exchangeAuthorizationCode_overwrites_witness:
  "tokens holding_client
     = Some \<lparr>accessToken = JStr ''expiring-token'', refreshToken = JStr ''refresh-token'',
             expiresAt = JNum (Num 1060)\<rparr> \<and>
   fst (exchangeAuthorizationCode granting ''auth-code'' (holding_client, empty_world))
     = Inr (token_json ''new-access'' ''new-refresh'' 100000) \<and>
   tokens (fst (snd (exchangeAuthorizationCode granting ''auth-code''
          (holding_client, empty_world))))
     = Some \<lparr>accessToken = JStr ''new-access'', refreshToken = JStr ''new-refresh'',
             expiresAt = JNum (Num 100000)\<rparr> \<and>
   rateLimitInfo (fst (snd (exchangeAuthorizationCode granting ''auth-code''
          (holding_client, empty_world))))
     = Some \<lparr>shortTerm = \<lparr>usage = Some (Num 50), limit = Some (Num 100)\<rparr>,
             longTerm = \<lparr>usage = Some (Num 200), limit = Some (Num 1000)\<rparr>\<rparr> \<and>
   cb_log (snd (snd (exchangeAuthorizationCode granting ''auth-code''
          (holding_client, empty_world)))) = [] \<and>
   map req_url (net_log (snd (snd (exchangeAuthorizationCode granting ''auth-code''
          (holding_client, empty_world)))))
     = [''https://www.strava.com/oauth/token''] \<and>
   cb_log (snd (snd (refreshAccessToken granting None (holding_client, empty_world))))
     = [\<lparr>accessToken = JStr ''new-access'', refreshToken = JStr ''new-refresh'',
         expiresAt = JNum (Num 100000)\<rparr>]"
proof -
  let ?E = "exchangeAuthorizationCode granting ''auth-code'' (holding_client, empty_world)"
  let ?R = "refreshAccessToken granting None (holding_client, empty_world)"
  let ?d = "token_json ''new-access'' ''new-refresh'' 100000"
  let ?response = "\<lparr>r_status = 200,
         r_headers = [''x-ratelimit-limit'' \<mapsto> ''600,30000'',
                      ''x-ratelimit-usage'' \<mapsto> ''7,70''],
         r_json = Some ?d, r_text = []\<rparr>"
  have "?E = (fst ?E, fst (snd ?E), snd (snd ?E))" by simp
  note t = exchangeAuthorizationCode_overwrites [OF this]
  have ans: "fetch (granting (length (net_log empty_world))
                     (exchange_request holding_client ''auth-code''))
               (timeout (config holding_client)) = Fulfilled ?response"
    by (simp add: fetch_def granting_def holding_client_def due_client_def StravaClient_def
          example_config_def DEFAULT_TIMEOUT_def)
  have okr: "ok ?response \<and> r_json ?response = Some ?d \<and> ?d \<noteq> JNull \<and> ?d \<noteq> JUndefined"
    by (simp add: ok_def token_json_def)
  from t ans okr have 1: "fst ?E = Inr ?d"
    and 2: "tokens (fst (snd ?E)) = Some \<lparr>accessToken = opt_prop ?d ''access_token'',
                              refreshToken = opt_prop ?d ''refresh_token'',
                              expiresAt = opt_prop ?d ''expires_at''\<rparr>"
    by blast+
  from t have 3: "rateLimitInfo (fst (snd ?E)) = rateLimitInfo holding_client"
    and 4: "cb_log (snd (snd ?E)) = cb_log empty_world"
    and 5: "net_log (snd (snd ?E)) =
              net_log empty_world @ [exchange_request holding_client ''auth-code'']"
    by blast+
  have "?R = (Inr ?d, fst (snd ?R), snd (snd ?R))"
    using refreshAccessToken_example by (metis prod.collapse)
  with t have 6: "cb_log (snd (snd ?R)) =
      cb_log empty_world @ [\<lparr>accessToken = opt_prop ?d ''access_token'',
                              refreshToken = opt_prop ?d ''refresh_token'',
                              expiresAt = opt_prop ?d ''expires_at''\<rparr>]"
    by blast
  from 1 2 3 4 5 6 show ?thesis
    by (simp add: token_json_def empty_world_def holding_client_def due_client_def
          exchange_request_def STRAVA_OAUTH_BASE_URL_def)
qed

section \<open>Properties of the webhook event parser\<close>

lemma type_differs_object:
  "type_differs (JObj kvs) k t =
     Inr (typeof (case map_of kvs k of None \<Rightarrow> JUndefined | Some v \<Rightarrow> v) \<noteq> t)"
  by (simp add: type_differs_def)

lemma get_prop_object:
  "get_prop (JObj kvs) k = Inr (case map_of kvs k of None \<Rightarrow> JUndefined | Some v \<Rightarrow> v)"
  by simp

lemma typeof_number:
  "(typeof (case v of None \<Rightarrow> JUndefined | Some x \<Rightarrow> x) = TNumber) = is_number v"
  by (cases v; cases "the v") (auto simp: is_number_def)

lemma typeof_string_in:
  "(typeof (case v of None \<Rightarrow> JUndefined | Some x \<Rightarrow> x) = TString \<and>
    (case v of None \<Rightarrow> JUndefined | Some x \<Rightarrow> x) \<in> set (map JStr allowed))
     = is_string_in allowed v"
  by (cases v; cases "the v") (auto simp: is_string_in_def)

text \<open>
  On objects claim C8 holds: an object with all required fields, of the right types and
  within the two enumerations, is returned as it is, and every other object is refused
  with the validation error. So is every payload that is a boolean, a number, a string or
  an array.
\<close>

lemma parseWebhookEvent_object:
  "parseWebhookEvent (JObj kvs) =
     (if well_formed_event kvs then Inr (JObj kvs) else Inl invalid_payload)"
  unfolding parseWebhookEvent_def type_differs_object get_prop_object or_else_def
    well_formed_event_def typeof_number [symmetric] typeof_string_in [symmetric]
  by (simp add: Let_def)

lemma parseWebhookEvent_primitive:
  "payload \<noteq> JNull \<Longrightarrow> payload \<noteq> JUndefined \<Longrightarrow> \<forall>kvs. payload \<noteq> JObj kvs \<Longrightarrow>
   parseWebhookEvent payload = Inl invalid_payload"
  by (cases payload) (simp_all add: parseWebhookEvent_def type_differs_def or_else_def)

text \<open>
  Claim C8 at the payload \<open>null\<close>, which has none of the required fields: the first
  property read throws a \<open>TypeError\<close>, and that, not the validation error, is what the
  caller gets.
\<close>

theorem parseWebhookEvent_null:
  "parseWebhookEvent JNull =
     Inl (JsError TypeErrorC ''TypeError''
            ''Cannot read properties of null (reading 'object_type')'') \<and>
   parseWebhookEvent JNull \<noteq> Inl invalid_payload"
  by (simp add: parseWebhookEvent_def type_differs_def or_else_def invalid_payload_def)

section \<open>Properties of pagination\<close>

lemma iterateActivities_loop_from:
  assumes "p \<le> k"
    and "\<forall>q. p \<le> q \<and> q < k \<longrightarrow> full_page f pp q"
    and "last_page f pp k"
  shows "iterateActivities_loop f pp p acc req =
           Some (Inr (acc @ concat (map (page_items f pp) [p..<Suc k])), req @ [p..<Suc k])"
  using assms
proof (induction "k - p" arbitrary: p acc req)
  case 0
  then have pk: "p = k" by simp
  from \<open>last_page f pp k\<close> obtain xs where
    xs: "f k pp = Inr xs" "xs = [] \<or> int (length xs) < pp"
    by (auto simp: last_page_def split: sum.splits)
  show ?case
    unfolding pk using xs
    by (subst iterateActivities_loop.simps) (auto simp: page_items_def)
next
  case (Suc n)
  then have lt: "p < k" by simp
  with Suc.prems have "full_page f pp p" by simp
  then obtain xs where xs: "f p pp = Inr xs" "xs \<noteq> []" "\<not> int (length xs) < pp"
    by (auto simp: full_page_def split: sum.splits)
  have step: "iterateActivities_loop f pp p acc req =
                iterateActivities_loop f pp (p + 1) (acc @ xs) (req @ [p])"
    using xs by (subst iterateActivities_loop.simps) simp
  have ih: "iterateActivities_loop f pp (p + 1) (acc @ xs) (req @ [p]) =
              Some (Inr ((acc @ xs) @ concat (map (page_items f pp) [p + 1..<Suc k])),
                    (req @ [p]) @ [p + 1..<Suc k])"
    using Suc.hyps(2) Suc.prems lt by (intro Suc.hyps(1)) auto
  have upt: "[p..<Suc k] = p # [p + 1..<Suc k]"
    using lt by (simp add: upt_conv_Cons)
  show ?case
    unfolding step ih upt using xs by (simp add: page_items_def)
qed

text \<open>
  Claim C5. Let the page size be the requested one (200 when none, or zero, is given).
  If page \<open>k\<close> is the first page that is empty or shorter than the page size, the
  pages before it being fetched, non-empty and not shorter, then the collection ends, it
  has requested exactly the pages \<open>1, ..., k\<close> in this order, and it returns their
  items in fetch order.
\<close>

theorem getAllActivities_stops_at_first_short_page:
  assumes "perPage = (case per_page of None \<Rightarrow> 200 | Some n \<Rightarrow> if n = 0 then 200 else n)"
    and "1 \<le> k"
    and "\<forall>q. 1 \<le> q \<and> q < k \<longrightarrow> full_page fetchPage perPage q"
    and "last_page fetchPage perPage k"
  shows "getAllActivities fetchPage per_page =
           Some (Inr (concat (map (page_items fetchPage perPage) [1..<Suc k])), [1..<Suc k])"
  using iterateActivities_loop_from [OF assms(2,3,4), of "[]" "[]"] assms(1)
  by (simp add: getAllActivities_def Let_def)

text \<open>
  The stub of the test suite at page size 2: the collection is \<open>[a, b, c]\<close>, and pages
  1 and 2 were requested, page 3 never.
\<close>

theorem getAllActivities_stops_at_first_short_page_witness:
  "getAllActivities stub_pages (Some 2) = Some (Inr [''a'', ''b'', ''c''], [1, 2])"
proof -
  have "getAllActivities stub_pages (Some 2) =
           Some (Inr (concat (map (page_items stub_pages 2) [1..<Suc 2])), [1..<Suc 2])"
    by (rule getAllActivities_stops_at_first_short_page)
       (auto simp: full_page_def last_page_def stub_pages_def)
  then show ?thesis
    by (simp add: page_items_def stub_pages_def upt_rec)
qed

text \<open>
  The loop stops on no other page: a collection that ends has met a page that is not
  full, and when every page is full the collection never ends.
\<close>

lemma iterateActivities_loop_Some_not_all_full:
  assumes "iterateActivities_loop f pp p acc req = Some y"
  shows "\<exists>q\<ge>p. \<not> full_page f pp q"
proof (rule iterateActivities_loop.raw_induct
         [where P = "\<lambda>f pp p acc req y. \<exists>q\<ge>p. \<not> full_page f pp q", OF _ assms])
  fix loop :: "(nat \<Rightarrow> int \<Rightarrow> js_exn + 'a list) \<Rightarrow> int \<Rightarrow> nat \<Rightarrow> 'a list \<Rightarrow> nat list
                 \<Rightarrow> ((js_exn + 'a list) \<times> nat list) option"
    and fetchPage perPage page allActivities requested y
  assume IH: "\<And>f pp p acc req y. loop f pp p acc req = Some y
                \<Longrightarrow> \<exists>q\<ge>p. \<not> full_page f pp q"
    and body: "(case fetchPage page perPage of
        Inl e \<Rightarrow> Some (Inl e, requested @ [page])
      | Inr activities \<Rightarrow>
          if length activities = 0 then Some (Inr allActivities, requested @ [page])
          else if int (length activities) < perPage
          then Some (Inr (allActivities @ activities), requested @ [page])
          else loop fetchPage perPage (page + 1)
                 (allActivities @ activities) (requested @ [page])) = Some y"
  show "\<exists>q\<ge>page. \<not> full_page fetchPage perPage q"
  proof (cases "full_page fetchPage perPage page")
    case False
    then show ?thesis by blast
  next
    case True
    then obtain xs where xs: "fetchPage page perPage = Inr xs" "xs \<noteq> []"
      "\<not> int (length xs) < perPage"
      by (auto simp: full_page_def split: sum.splits)
    with body have "loop fetchPage perPage (page + 1) (allActivities @ xs)
                      (requested @ [page]) = Some y"
      by simp
    from IH [OF this] obtain q where "page + 1 \<le> q" "\<not> full_page fetchPage perPage q"
      by blast
    then show ?thesis by (intro exI [of _ q]) simp
  qed
qed

lemma getAllActivities_runs_on:
  assumes "\<forall>q\<ge>1. full_page fetchPage
             (case per_page of None \<Rightarrow> 200 | Some n \<Rightarrow> if n = 0 then 200 else n) q"
  shows "getAllActivities fetchPage per_page = None"
proof (cases "getAllActivities fetchPage per_page")
  case None
  then show ?thesis .
next
  case (Some y)
  then have "\<exists>q\<ge>1. \<not> full_page fetchPage
             (case per_page of None \<Rightarrow> 200 | Some n \<Rightarrow> if n = 0 then 200 else n) q"
    by (auto simp: getAllActivities_def Let_def
          dest!: iterateActivities_loop_Some_not_all_full)
  with assms show ?thesis by blast
qed

section \<open>Properties of interleaved callers\<close>

lemma finish_refresh_frame:
  assumes "finish_refresh options res (c, w) = (out, c', w')"
  shows "net_log w' = net_log w \<and> refreshPromise c' = refreshPromise c \<and>
         config c' = config c"
proof -
  obtain o1 c1 where s: "fetchWithTimeout_settle options res c = (o1, c1)"
    by (cases "fetchWithTimeout_settle options res c") auto
  note fr = fetchWithTimeout_settle_frame [OF s]
  show ?thesis
  proof (cases o1)
    case (Inl e)
    with assms s fr show ?thesis by (auto simp: finish_refresh_def)
  next
    case (Inr d)
    with assms s have "refreshAccessToken_store d (c1, w) = (out, c', w')"
      by (simp add: finish_refresh_def)
    from refreshAccessToken_store_log [OF this] fr show ?thesis by simp
  qed
qed

lemma start_refresh_log:
  assumes "start_refresh net (c, w) = (pr, w')"
  shows "length (net_log w') = length (net_log w) + refresh_calls c"
  using assms
  by (auto simp: start_refresh_def refresh_calls_def Let_def split: sum.splits)

text \<open>
  The two halves of a refresh, run one after the other, are \<open>refreshAccessToken\<close>.
\<close>

lemma refreshAccessToken_start_finish:
  "refreshAccessToken net None (c, w) =
     (case start_refresh net (c, w) of
        (Settled out, w') \<Rightarrow> (out, c, w')
      | (Pending options res, w') \<Rightarrow> finish_refresh options res (c, w'))"
proof (cases "tokenToRefresh None c")
  case (Inl e)
  then show ?thesis by (simp add: refreshAccessToken_def start_refresh_def)
next
  case (Inr r)
  let ?options = "requestRaw_options POST (refresh_options c r)"
  let ?req = "\<lparr>req_url = STRAVA_OAUTH_BASE_URL @ ''/token'', req_method = f_method ?options,
               req_headers = f_headers ?options, req_body = f_body ?options\<rparr>"
  let ?res = "fetch (net (length (net_log w)) ?req) (fetchWithTimeout_timeout ?options c)"
  obtain o1 c1 where s: "fetchWithTimeout_settle ?options ?res c = (o1, c1)"
    by (cases "fetchWithTimeout_settle ?options ?res c") auto
  show ?thesis
    using Inr s
    by (cases o1)
       (simp_all add: refreshAccessToken_def start_refresh_def finish_refresh_def
          requestRaw_def fetchWithTimeout_def Let_def refreshAccessToken_store_def
          split: sum.splits option.splits)
qed

lemma single_flight_idle:
  "single_flight (c\<lparr>refreshPromise := None\<rparr>) w (idle c w)"
  by (simp add: single_flight_def idle_def)

subsection \<open>Lists of callers\<close>

lemma returned_fields [simp]:
  "awaits (returned r t) = None" "\<not> installed (returned r t)"
  "result (returned r t) = Some r" "\<not> resumed (returned r t)"
  by (simp_all add: returned_def resumed_def)

lemma awaiting_fields [simp]:
  "awaits (awaiting p l) = Some p" "installed (awaiting p l) = l"
  "result (awaiting p l) = None" "\<not> resumed (awaiting p l)"
  by (simp_all add: awaiting_def resumed_def)

lemma filter_one_ex:
  assumes "length (filter P xs) = 1"
  shows "\<exists>x\<in>set xs. P x"
proof -
  from assms have "filter P xs \<noteq> []" by auto
  then show ?thesis by (auto simp: filter_empty_conv)
qed

lemma filter_one_unique:
  assumes "length (filter P xs) = 1" "i < length xs" "P (xs ! i)" "j < length xs" "P (xs ! j)"
  shows "i = j"
proof -
  have "card {k. k < length xs \<and> P (xs ! k)} = 1"
    using assms(1) by (simp add: length_filter_conv_card)
  moreover have "finite {k. k < length xs \<and> P (xs ! k)}" by simp
  moreover have "i \<in> {k. k < length xs \<and> P (xs ! k)}" "j \<in> {k. k < length xs \<and> P (xs ! k)}"
    using assms by auto
  ultimately show ?thesis
    by (metis One_nat_def card_le_Suc0_iff_eq le_refl)
qed

lemma filter_update_same:
  assumes "i < length xs" "P x = P (xs ! i)"
  shows "length (filter P (xs[i := x])) = length (filter P xs)"
proof -
  have "{k. k < length (xs[i := x]) \<and> P (xs[i := x] ! k)} = {k. k < length xs \<and> P (xs ! k)}"
    using assms by (auto simp: nth_list_update)
  then show ?thesis by (simp add: length_filter_conv_card)
qed

lemma list_all_update:
  assumes "list_all P xs" "P x"
  shows "list_all P (xs[i := x])"
  using assms set_update_subset_insert [of xs i x] by (auto simp: list_all_iff)

subsection \<open>Each event keeps the run in single flight\<close>

lemma installer_first_snoc:
  "installer_first (cs @ [a]) =
     (installer_first cs \<and> (installed a \<longrightarrow> list_all (\<lambda>b. awaits b = None) cs))"
  unfolding installer_first_def list_all_length
  by (auto simp: nth_append less_Suc_eq)

lemma installer_first_update:
  assumes "installer_first cs" "i < length cs" "installed a = installed (cs ! i)"
    "awaits a = awaits (cs ! i)"
  shows "installer_first (cs[i := a])"
  using assms unfolding installer_first_def
  by (auto simp: nth_list_update)

lemma got_outcome_callers [simp]:
  "got_outcome (s\<lparr>callers := cs\<rparr>) = got_outcome s"
  by (rule ext) (simp add: got_outcome_def)

lemma single_flight_add_returned:
  assumes "single_flight c0 w0 s"
  shows "single_flight c0 w0 (s\<lparr>callers := callers s @ [returned r t]\<rparr>)"
  using assms
  by (auto simp: single_flight_def installer_waiting_def awaits_first_def got_outcome_def
        installer_first_snoc)

lemma single_flight_add_follower:
  assumes "single_flight c0 w0 s" "refreshPromise c0 = None" "refreshPromise (cl s) = Some p"
  shows "single_flight c0 w0 (s\<lparr>callers := callers s @ [awaiting p False]\<rparr>)"
proof -
  from assms have B: "length (promises s) = 1" and p: "p = 0"
    by (auto simp: single_flight_def split: if_splits)
  with assms(1) show ?thesis
    by (auto simp: single_flight_def installer_waiting_def awaits_first_def got_outcome_def
          installer_first_snoc)
qed

text \<open>
  The caller that finds no marker while nobody has resumed is in a run where no refresh
  was started; it starts the one refresh.
\<close>

lemma marker_None_no_refresh:
  assumes "single_flight c0 w0 s" "refreshPromise (cl s) = None" "nobody_resumed s"
  shows "promises s = [] \<and> cl s = c0 \<and> wd s = w0 \<and>
         list_all (\<lambda>a. awaits a = None \<and> \<not> installed a) (callers s)"
proof (rule ccontr)
  assume n: "\<not> ?thesis"
  with assms(1) have B: "length (filter installed (callers s)) = 1"
    "list_all awaits_first (callers s)"
    "refreshPromise (cl s) = (if installer_waiting (callers s) then Some 0 else None)"
    by (auto simp: single_flight_def)
  from filter_one_ex [OF B(1)] obtain a where a: "a \<in> set (callers s)" "installed a" by blast
  with B(2) have "awaits a = Some 0" by (auto simp: list_all_iff awaits_first_def)
  moreover from B(3) assms(2) a have "result a \<noteq> None"
    by (auto simp: installer_waiting_def list_ex_iff split: if_splits)
  ultimately have "resumed a" by (simp add: resumed_def)
  with assms(3) a show False by (auto simp: nobody_resumed_def list_all_iff)
qed

lemma single_flight_install:
  assumes "single_flight c0 w0 s" "refreshPromise (cl s) = None" "nobody_resumed s"
    and "start_refresh net (cl s, wd s) = (pr, w')"
  shows "single_flight c0 w0
           (s\<lparr>cl := (cl s)\<lparr>refreshPromise := Some (length (promises s))\<rparr>, wd := w',
              promises := promises s @ [pr],
              callers := callers s @ [awaiting (length (promises s)) True]\<rparr>)"
proof -
  from marker_None_no_refresh [OF assms(1-3)]
  have A: "promises s = []" "cl s = c0" "wd s = w0"
    "list_all (\<lambda>a. awaits a = None \<and> \<not> installed a) (callers s)"
    by simp_all
  from A(4) have f: "filter installed (callers s) = []"
    by (auto simp: filter_empty_conv list_all_iff)
  from A(4) have af: "list_all awaits_first (callers s)"
    by (auto simp: list_all_iff awaits_first_def)
  from A(4) have go: "list_all (got_outcome s') (callers s)" for s'
    by (auto simp: list_all_iff got_outcome_def resumed_def)
  from A(4) have fi: "installer_first (callers s)"
    and na: "list_all (\<lambda>b. awaits b = None) (callers s)"
    by (auto simp: installer_first_def list_all_length)
  from start_refresh_log [OF assms(4)] A
  have lg: "length (net_log w') = length (net_log w0) + refresh_calls c0" by simp
  show ?thesis
    unfolding single_flight_def
    by (rule disjI2)
       (simp add: A f af go lg fi na installer_waiting_def awaits_first_def got_outcome_def
          installer_first_snoc)
qed

lemma step_Call:
  assumes inv: "single_flight c0 w0 s" and rp0: "refreshPromise c0 = None"
    and nr: "nobody_resumed s" and st: "step net (Call now) s = Some s'"
  shows "single_flight c0 w0 s' \<and> nobody_resumed s'"
proof (cases "tokens (cl s)")
  case None
  with st have "s' = s\<lparr>callers := callers s @ [returned (Inr ()) None]\<rparr>"
    by (simp add: step_def)
  with inv nr show ?thesis
    by (simp add: single_flight_add_returned nobody_resumed_def)
next
  case (Some t)
  show ?thesis
  proof (cases "shouldRefresh now (cl s) t")
    case (Inl e)
    with st Some have "s' = s\<lparr>callers := callers s @ [returned (Inl e) (Some t)]\<rparr>"
      by (simp add: step_def)
    with inv nr show ?thesis
      by (simp add: single_flight_add_returned nobody_resumed_def)
  next
    case (Inr b)
    show ?thesis
    proof (cases b)
    case False
    with Inr st Some have "s' = s\<lparr>callers := callers s @ [returned (Inr ()) (Some t)]\<rparr>"
      by (simp add: step_def)
    with inv nr show ?thesis
      by (simp add: single_flight_add_returned nobody_resumed_def)
  next
    case True
    with Inr have due: "shouldRefresh now (cl s) t = Inr True" by simp
    show ?thesis
    proof (cases "refreshPromise (cl s)")
      case (Some p)
      with st \<open>tokens (cl s) = Some t\<close> due
      have "s' = s\<lparr>callers := callers s @ [awaiting p False]\<rparr>"
        by (simp add: step_def)
      with inv rp0 nr Some show ?thesis
        by (simp add: single_flight_add_follower nobody_resumed_def)
    next
      case None
      obtain pr w' where sr: "start_refresh net (cl s, wd s) = (pr, w')"
        by (cases "start_refresh net (cl s, wd s)") auto
      with st \<open>tokens (cl s) = Some t\<close> due None
      have s': "s' = s\<lparr>cl := (cl s)\<lparr>refreshPromise := Some (length (promises s))\<rparr>,
                        wd := w', promises := promises s @ [pr],
                        callers := callers s @ [awaiting (length (promises s)) True]\<rparr>"
        by (simp add: step_def)
      from single_flight_install [OF inv None nr sr] nr show ?thesis
        unfolding s' by (simp add: nobody_resumed_def)
    qed
  qed
  qed
qed

lemma step_Settle:
  assumes inv: "single_flight c0 w0 s" and st: "step net (Settle p) s = Some s'"
  shows "single_flight c0 w0 s' \<and> callers s' = callers s"
proof -
  from st have p: "p < length (promises s)"
    by (auto simp: step_def split: if_splits)
  with st obtain options res where pend: "promises s ! p = Pending options res"
    by (cases "promises s ! p") (auto simp: step_def)
  obtain out c' w' where fin: "finish_refresh options res (cl s, wd s) = (out, c', w')"
    using prod_cases3 by blast
  with st p pend
  have s': "s' = s\<lparr>cl := c', wd := w', promises := (promises s)[p := Settled out]\<rparr>"
    by (simp add: step_def)
  note fr = finish_refresh_frame [OF fin]
  from inv p have B: "length (promises s) = 1"
    "length (filter installed (callers s)) = 1"
    "list_all awaits_first (callers s)"
    "length (net_log (wd s)) = length (net_log w0) + refresh_calls c0"
    "refreshPromise (cl s) = (if installer_waiting (callers s) then Some 0 else None)"
    "list_all (got_outcome s) (callers s)"
    "installer_first (callers s)"
    by (auto simp: single_flight_def)
  from B(1) p have p0: "p = 0" by simp
  from B(1) pend p0 have ps: "promises s = [Pending options res]"
    by (cases "promises s") auto
  from B(6) ps have "list_all (\<lambda>a. \<not> resumed a) (callers s)"
    by (auto simp: list_all_iff got_outcome_def)
  then have go: "list_all (got_outcome s') (callers s)"
    by (auto simp: list_all_iff got_outcome_def)
  show ?thesis
    unfolding single_flight_def
    using B(2-5) B(7) fr go by (simp add: s' ps p0)
qed

lemma installer_waiting_nth:
  "installer_waiting cs = (\<exists>j<length cs. installed (cs ! j) \<and> result (cs ! j) = None)"
proof
  assume "installer_waiting cs"
  then show "\<exists>j<length cs. installed (cs ! j) \<and> result (cs ! j) = None"
    by (auto simp: installer_waiting_def list_ex_iff in_set_conv_nth)
next
  assume "\<exists>j<length cs. installed (cs ! j) \<and> result (cs ! j) = None"
  then obtain j where "j < length cs" "installed (cs ! j)" "result (cs ! j) = None" by blast
  then have "cs ! j \<in> set cs \<and> installed (cs ! j) \<and> result (cs ! j) = None" by simp
  then show "installer_waiting cs"
    unfolding installer_waiting_def list_ex_iff by blast
qed

lemma step_Resume:
  assumes inv: "single_flight c0 w0 s" and st: "step net (Resume i) s = Some s'"
  shows "single_flight c0 w0 s'"
proof -
  let ?cs = "callers s"
  let ?a = "?cs ! i"
  from st have i: "i < length ?cs"
    by (auto simp: step_def split: if_splits)
  with st obtain p where aw: "awaits ?a = Some p"
    by (cases "awaits ?a") (auto simp: step_def)
  with st i have rn: "result ?a = None" and p: "p < length (promises s)"
    by (auto simp: step_def split: if_splits)
  with st i aw obtain out where set: "promises s ! p = Settled out"
    by (cases "promises s ! p") (auto simp: step_def)
  define c' where "c' = (if installed ?a then (cl s)\<lparr>refreshPromise := None\<rparr> else cl s)"
  define a' where "a' = ?a\<lparr>result := Some (settled_result out), observed := tokens c'\<rparr>"
  from st i aw rn p set have s': "s' = s\<lparr>cl := c', callers := ?cs[i := a']\<rparr>"
    by (simp add: step_def c'_def a'_def Let_def)
  have tk: "tokens c' = tokens (cl s)" by (simp add: c'_def)
  from inv i aw have B: "length (promises s) = 1"
    "length (filter installed ?cs) = 1"
    "list_all awaits_first ?cs"
    "length (net_log (wd s)) = length (net_log w0) + refresh_calls c0"
    "refreshPromise (cl s) = (if installer_waiting ?cs then Some 0 else None)"
    "list_all (got_outcome s) ?cs"
    "installer_first ?cs"
    by (auto simp: single_flight_def list_all_length)
  from B(1) p set have ps: "promises s = [Settled out]"
    by (cases "promises s") auto
  have inst: "installed a' = installed ?a" and aw': "awaits a' = awaits ?a"
    by (simp_all add: a'_def)
  have 1: "length (filter installed (?cs[i := a'])) = 1"
    using filter_update_same [OF i, of installed a'] inst B(2) by simp
  have af: "awaits_first a'"
    using B(3) i by (simp add: list_all_length awaits_first_def inst aw')
  have 2: "list_all awaits_first (?cs[i := a'])"
    by (rule list_all_update [OF B(3) af])
  have go_a': "got_outcome s' a'"
    by (simp add: got_outcome_def s' ps a'_def)
  have "got_outcome s' b" if "b \<in> set ?cs" for b
    using B(6) that by (auto simp: list_all_iff got_outcome_def s' tk)
  then have "list_all (got_outcome s') ?cs" by (simp add: list_all_iff)
  then have 3: "list_all (got_outcome s') (?cs[i := a'])"
    by (rule list_all_update) (rule go_a')
  have 4: "refreshPromise c' = (if installer_waiting (?cs[i := a']) then Some 0 else None)"
  proof (cases "installed ?a")
    case True
    have "\<not> installer_waiting (?cs[i := a'])"
    proof
      assume "installer_waiting (?cs[i := a'])"
      then obtain j where j: "j < length ?cs" "installed (?cs[i := a'] ! j)"
        "result (?cs[i := a'] ! j) = None"
        by (auto simp: installer_waiting_nth)
      have "j \<noteq> i" using j i by (auto simp: a'_def)
      with j have "installed (?cs ! j)" by simp
      from filter_one_unique [OF B(2) i True j(1) this] \<open>j \<noteq> i\<close> show False by simp
    qed
    with True show ?thesis by (simp add: c'_def)
  next
    case False
    have "installer_waiting (?cs[i := a']) = installer_waiting ?cs"
    proof
      assume "installer_waiting (?cs[i := a'])"
      then obtain j where j: "j < length ?cs" "installed (?cs[i := a'] ! j)"
        "result (?cs[i := a'] ! j) = None"
        by (auto simp: installer_waiting_nth)
      have "j \<noteq> i" using j i False inst by auto
      with j have "installed (?cs ! j)" "result (?cs ! j) = None" by simp_all
      with j(1) show "installer_waiting ?cs"
        unfolding installer_waiting_nth by blast
    next
      assume "installer_waiting ?cs"
      then obtain j where j: "j < length ?cs" "installed (?cs ! j)" "result (?cs ! j) = None"
        by (auto simp: installer_waiting_nth)
      have "j \<noteq> i" using j False by auto
      with j have "installed (?cs[i := a'] ! j)" "result (?cs[i := a'] ! j) = None" by simp_all
      with j(1) show "installer_waiting (?cs[i := a'])"
        unfolding installer_waiting_nth by auto
    qed
    with False B(5) show ?thesis by (simp add: c'_def)
  qed
  have 5: "installer_first (?cs[i := a'])"
    by (rule installer_first_update [OF B(7) i inst aw'])
  show ?thesis
    unfolding single_flight_def
    using 3 by (intro disjI2) (simp add: s' B(1) B(4) 1 2 4 5)
qed

lemma refresh_calls_eq:
  "refresh_calls c = (if \<exists>t. tokens c = Some t \<and> js_truthy (refreshToken t) then 1 else 0)"
  by (auto simp: refresh_calls_def tokenToRefresh_def Let_def split: option.splits)

text \<open>
  A run of concurrent calls stays in single flight: a \<open>Call\<close> happens only while
  nobody has resumed, and then it either awaits the promise in place or, when there is
  none, starts the first refresh.
\<close>

lemma run_single_flight:
  assumes rp0: "refreshPromise c0 = None"
  shows "single_flight c0 w0 s \<Longrightarrow> concurrent evs \<Longrightarrow>
         (\<not> nobody_resumed s \<longrightarrow> \<not> list_ex is_Call evs) \<Longrightarrow>
         run net evs s = Some s' \<Longrightarrow> single_flight c0 w0 s'"
proof (induction evs arbitrary: s)
  case Nil
  then show ?case by simp
next
  case (Cons ev evs)
  from Cons.prems(4) obtain s1 where s1: "step net ev s = Some s1" "run net evs s1 = Some s'"
    by (cases "step net ev s") auto
  from Cons.prems(2) have conc: "concurrent evs" by simp
  show ?case
  proof (cases ev)
    case (Call now)
    with Cons.prems(3) have "nobody_resumed s" by auto
    from step_Call [OF Cons.prems(1) rp0 this s1(1) [unfolded Call]]
    have "single_flight c0 w0 s1" "nobody_resumed s1" by simp_all
    then show ?thesis using Cons.IH [OF _ conc _ s1(2)] by simp
  next
    case (Settle p)
    from step_Settle [OF Cons.prems(1) s1(1) [unfolded Settle]]
    have inv1: "single_flight c0 w0 s1" and "callers s1 = callers s" by simp_all
    then have "nobody_resumed s1 = nobody_resumed s" by (simp add: nobody_resumed_def)
    with Cons.prems(3) have "\<not> nobody_resumed s1 \<longrightarrow> \<not> list_ex is_Call evs" by simp
    with inv1 show ?thesis using Cons.IH [OF _ conc _ s1(2)] by simp
  next
    case (Resume i)
    from step_Resume [OF Cons.prems(1) s1(1) [unfolded Resume]]
    have inv1: "single_flight c0 w0 s1" .
    from Cons.prems(2) Resume have "\<not> list_ex is_Call evs" by simp
    with inv1 show ?thesis using Cons.IH [OF _ conc _ s1(2)] by simp
  qed
qed

text \<open>
  A caller suspends exactly when it enters with stored tokens that are due for refresh;
  otherwise it returns, or fails on the comparison, at once.
\<close>

lemma Call_awaits_iff_due:
  assumes "step net (Call now) s = Some s'"
  shows "callers s' = callers s @ [last (callers s')] \<and>
         (awaits (last (callers s')) \<noteq> None) =
           (\<exists>t. tokens (cl s) = Some t \<and> shouldRefresh now (cl s) t = Inr True)"
  using assms
  by (auto simp: step_def split: option.splits if_splits prod.splits sum.splits)

text \<open>
  Claim C1, as the code has it. Take any run that starts from a client with nothing in
  flight and whose calls are concurrent (every caller enters before any caller has
  resumed). At most one refresh is started and at most one network call is made. If some
  caller entered while the tokens were due, then: exactly one caller installed the
  promise, in the event of its own call, and no caller before it had to wait; the number
  of network calls is one when the stored refresh token is truthy (a non-empty string)
  and zero when it is not (the refresh then fails before its \<open>fetch\<close>); every caller
  that had to wait awaits that one promise; every caller that has resumed got the outcome
  of that promise,
  success or failure, and saw the same tokens; and the marker is set exactly as long as
  the installing caller has not resumed, so it is cleared when all callers have returned,
  whatever the outcome.
\<close>

theorem refreshTokenIfNeeded_single_flight:
  assumes "concurrent evs" and "run net evs (idle c w) = Some s"
  shows "length (promises s) \<le> 1 \<and>
         length (net_log (wd s)) \<le> length (net_log w) + 1 \<and>
         ((\<forall>a\<in>set (callers s). result a \<noteq> None) \<longrightarrow> refreshPromise (cl s) = None) \<and>
         ((\<exists>a\<in>set (callers s). awaits a \<noteq> None) \<longrightarrow>
            length (filter installed (callers s)) = 1 \<and>
            length (net_log (wd s)) =
              length (net_log w) +
              (if \<exists>t. tokens c = Some t \<and> js_truthy (refreshToken t) then 1 else 0) \<and>
            (\<forall>a\<in>set (callers s). awaits a \<noteq> None \<longrightarrow> awaits a = Some 0) \<and>
            (\<forall>a\<in>set (callers s). resumed a \<longrightarrow>
               (\<exists>out. promises s = [Settled out] \<and> result a = Some (settled_result out) \<and>
                      observed a = tokens (cl s))) \<and>
            (refreshPromise (cl s) = None) = (\<not> installer_waiting (callers s)) \<and>
            installer_first (callers s))"
proof -
  let ?c0 = "c\<lparr>refreshPromise := None\<rparr>"
  have "nobody_resumed (idle c w)" by (simp add: nobody_resumed_def idle_def)
  with run_single_flight [of ?c0 w "idle c w" evs net s] single_flight_idle [of c w] assms
  have inv: "single_flight ?c0 w s" by simp
  have rc: "refresh_calls ?c0 = (if \<exists>t. tokens c = Some t \<and> js_truthy (refreshToken t) then 1 else 0)"
    by (simp add: refresh_calls_eq)
  from inv show ?thesis
    unfolding single_flight_def
  proof (elim disjE conjE)
    assume A: "promises s = []" "cl s = ?c0" "wd s = w"
      "list_all (\<lambda>a. awaits a = None \<and> \<not> installed a) (callers s)"
    then show ?thesis by (auto simp: list_all_iff)
  next
    assume B: "length (promises s) = 1"
      "length (filter installed (callers s)) = 1"
      "list_all awaits_first (callers s)"
      "length (net_log (wd s)) = length (net_log w) + refresh_calls ?c0"
      "refreshPromise (cl s) = (if installer_waiting (callers s) then Some 0 else None)"
      "list_all (got_outcome s) (callers s)"
      "installer_first (callers s)"
    have 1: "\<forall>a\<in>set (callers s). awaits a \<noteq> None \<longrightarrow> awaits a = Some 0"
      using B(3) by (auto simp: list_all_iff awaits_first_def)
    have 2: "\<forall>a\<in>set (callers s). resumed a \<longrightarrow>
               (\<exists>out. promises s = [Settled out] \<and> result a = Some (settled_result out) \<and>
                      observed a = tokens (cl s))"
      using B(6) by (auto simp: list_all_iff got_outcome_def)
    have 3: "(\<forall>a\<in>set (callers s). result a \<noteq> None) \<longrightarrow> refreshPromise (cl s) = None"
      using B(5) by (auto simp: installer_waiting_def list_ex_iff)
    have 4: "(refreshPromise (cl s) = None) = (\<not> installer_waiting (callers s))"
      using B(5) by simp
    have 5: "length (net_log (wd s)) \<le> length (net_log w) + 1"
      using B(4) rc by simp
    from B(1) B(2) B(4) B(7) rc 1 2 3 4 5 show ?thesis by simp
  qed
qed

lemma single_flight_example:
  "concurrent [Call 1000, Call 1000, Call 1001, Settle 0, Resume 1, Resume 0, Resume 2] \<and>
   run (answering 10) [Call 1000, Call 1000, Call 1001, Settle 0, Resume 1, Resume 0, Resume 2]
     (idle due_client empty_world) \<noteq> None \<and>
   list_all (\<lambda>a. result a \<noteq> None) (callers (the (run (answering 10)
       [Call 1000, Call 1000, Call 1001, Settle 0, Resume 1, Resume 0, Resume 2]
       (idle due_client empty_world)))) \<and>
   list_ex (\<lambda>a. awaits a \<noteq> None) (callers (the (run (answering 10)
       [Call 1000, Call 1000, Call 1001, Settle 0, Resume 1, Resume 0, Resume 2]
       (idle due_client empty_world)))) \<and>
   map result (callers (the (run (answering 10)
       [Call 1000, Call 1000, Call 1001, Settle 0, Resume 1, Resume 0, Resume 2]
       (idle due_client empty_world))))
     = [Some (Inr ()), Some (Inr ()), Some (Inr ())] \<and>
   map installed (callers (the (run (answering 10)
       [Call 1000, Call 1000, Call 1001, Settle 0, Resume 1, Resume 0, Resume 2]
       (idle due_client empty_world))))
     = [True, False, False] \<and>
   map observed (callers (the (run (answering 10)
       [Call 1000, Call 1000, Call 1001, Settle 0, Resume 1, Resume 0, Resume 2]
       (idle due_client empty_world))))
     = replicate 3 (Some \<lparr>accessToken = JStr ''new-access'',
                           refreshToken = JStr ''new-refresh'',
                           expiresAt = JNum (Num 100000)\<rparr>)"
  by code_simp

text \<open>
  The theorem at three callers that find the tokens due before the refresh settles,
  resumed in the order second, first, third: one network call, one installer, the
  marker cleared. By evaluation, the installer is the first caller, and all three return
  normally having seen the refreshed tokens.
\<close>

theorem refreshTokenIfNeeded_single_flight_witness:
  "concurrent [Call 1000, Call 1000, Call 1001, Settle 0, Resume 1, Resume 0, Resume 2] \<and>
   run (answering 10) [Call 1000, Call 1000, Call 1001, Settle 0, Resume 1, Resume 0, Resume 2]
     (idle due_client empty_world) \<noteq> None \<and>
   refreshPromise (cl (the (run (answering 10)
       [Call 1000, Call 1000, Call 1001, Settle 0, Resume 1, Resume 0, Resume 2]
       (idle due_client empty_world)))) = None \<and>
   length (net_log (wd (the (run (answering 10)
       [Call 1000, Call 1000, Call 1001, Settle 0, Resume 1, Resume 0, Resume 2]
       (idle due_client empty_world))))) = 1 \<and>
   length (filter installed (callers (the (run (answering 10)
       [Call 1000, Call 1000, Call 1001, Settle 0, Resume 1, Resume 0, Resume 2]
       (idle due_client empty_world))))) = 1 \<and>
   map installed (callers (the (run (answering 10)
       [Call 1000, Call 1000, Call 1001, Settle 0, Resume 1, Resume 0, Resume 2]
       (idle due_client empty_world))))
     = [True, False, False] \<and>
   map result (callers (the (run (answering 10)
       [Call 1000, Call 1000, Call 1001, Settle 0, Resume 1, Resume 0, Resume 2]
       (idle due_client empty_world))))
     = [Some (Inr ()), Some (Inr ()), Some (Inr ())] \<and>
   map observed (callers (the (run (answering 10)
       [Call 1000, Call 1000, Call 1001, Settle 0, Resume 1, Resume 0, Resume 2]
       (idle due_client empty_world))))
     = replicate 3 (Some \<lparr>accessToken = JStr ''new-access'',
                           refreshToken = JStr ''new-refresh'',
                           expiresAt = JNum (Num 100000)\<rparr>)"
proof -
  let ?evs = "[Call 1000, Call 1000, Call 1001, Settle 0, Resume 1, Resume 0, Resume 2]"
  let ?r = "run (answering 10) ?evs (idle due_client empty_world)"
  from single_flight_example have c: "concurrent ?evs" and r: "?r = Some (the ?r)"
    and all: "\<forall>a\<in>set (callers (the ?r)). result a \<noteq> None"
    and aw: "\<exists>a\<in>set (callers (the ?r)). awaits a \<noteq> None"
    by (simp_all add: list_all_iff list_ex_iff)
  have tk: "\<exists>t. tokens due_client = Some t \<and> js_truthy (refreshToken t)"
    by (simp add: due_client_def)
  note t = refreshTokenIfNeeded_single_flight [OF c r]
  from t all have m: "refreshPromise (cl (the ?r)) = None" by blast
  from t aw have f: "length (filter installed (callers (the ?r))) = 1"
    and "length (net_log (wd (the ?r))) =
           length (net_log empty_world) +
           (if \<exists>t. tokens due_client = Some t \<and> js_truthy (refreshToken t) then 1 else 0)"
    by blast+
  with tk have n: "length (net_log (wd (the ?r))) = 1"
    by (simp add: empty_world_def)
  from single_flight_example c m n f show ?thesis by simp
qed

text \<open>
  Claim C1 as stated fails where the stored refresh token is empty: two concurrent
  callers enter while the tokens are due and wait for one promise, but
  \<open>refreshAccessToken\<close> throws before its \<open>fetch\<close>, so no network call is made at
  all; both callers fail with the same token-refresh error.
\<close>

theorem refresh_without_refresh_token_counterexample:
  "concurrent [Call 1000, Call 1000, Resume 0, Resume 1] \<and>
   run (answering 10) [Call 1000, Call 1000, Resume 0, Resume 1]
     (idle due_client_no_refresh_token empty_world) \<noteq> None \<and>
   map awaits (callers (the (run (answering 10) [Call 1000, Call 1000, Resume 0, Resume 1]
       (idle due_client_no_refresh_token empty_world))))
     = [Some 0, Some 0] \<and>
   net_log (wd (the (run (answering 10) [Call 1000, Call 1000, Resume 0, Resume 1]
       (idle due_client_no_refresh_token empty_world))))
     = [] \<and>
   map result (callers (the (run (answering 10) [Call 1000, Call 1000, Resume 0, Resume 1]
       (idle due_client_no_refresh_token empty_world))))
     = [Some (Inl (Strava (StravaTokenRefreshError ''No refresh token available''))),
        Some (Inl (Strava (StravaTokenRefreshError ''No refresh token available'')))]"
  by code_simp

text \<open>
  The hypothesis of concurrency is needed. A caller that enters after the first one has
  resumed, at a time when the refreshed tokens are due again, finds the marker cleared
  and starts a refresh of its own: two network calls.
\<close>

lemma successive_calls_refresh_twice:
  "\<not> concurrent [Call 1000, Settle 0, Resume 0, Call 200000, Settle 1, Resume 1] \<and>
   run (answering 10) [Call 1000, Settle 0, Resume 0, Call 200000, Settle 1, Resume 1]
     (idle due_client empty_world) \<noteq> None \<and>
   map req_url (net_log (wd (the (run (answering 10)
       [Call 1000, Settle 0, Resume 0, Call 200000, Settle 1, Resume 1]
       (idle due_client empty_world)))))
     = [''https://www.strava.com/oauth/token'', ''https://www.strava.com/oauth/token'']"
  by code_simp

end
